theory Spec2Isabelle
  imports Complex_Main "HOL-Library.Sublist"
begin

section \<open>JavaScript values\<close>

text \<open>
  The body of a response is a JSON value; reading a property that an object does not have
  gives \<open>undefined\<close>, and arithmetic on \<open>undefined\<close> gives \<open>NaN\<close>. JSON numbers are
  rationals here (they stand for the doubles of the platform; no property below depends on
  rounding). An object is the list of its own properties, each key once.
\<close>

datatype jsval =
    Undefined
  | Null
  | Bool bool
  | Num rat
  | NaN
  | Str string
  | Arr "jsval list"
  | Obj "(string \<times> jsval) list"

datatype js_error =
    TypeError
  | SyntaxError
  | HttpError nat
  | NetworkError

text \<open>Sequencing of two computations that may throw: the first error wins.\<close>

definition seq :: "js_error + 'a \<Rightarrow> ('a \<Rightarrow> js_error + 'b) \<Rightarrow> js_error + 'b" where
  "seq m f = (case m of Inl e \<Rightarrow> Inl e | Inr v \<Rightarrow> f v)"

definition nullish :: "jsval \<Rightarrow> bool" where
  "nullish v = (v = Undefined \<or> v = Null)"

text \<open>
  The value of property \<open>k\<close> of a value that is neither \<open>undefined\<close> nor \<open>null\<close>. The
  program reads only data properties of the API's records (\<open>id\<close>, \<open>name\<close>, \<open>sprites\<close>,
  \<open>front_default\<close>, ...); no prototype of a string, number, boolean or array defines one of
  them, so on those values the read gives \<open>undefined\<close>.
\<close>

fun property :: "jsval \<Rightarrow> string \<Rightarrow> jsval" where
  "property (Obj kvs) k = (case map_of kvs k of None \<Rightarrow> Undefined | Some v \<Rightarrow> v)"
| "property v k = Undefined"

text \<open>\<open>v.k\<close>: a TypeError on \<open>undefined\<close> and \<open>null\<close>.\<close>

definition get :: "jsval \<Rightarrow> string \<Rightarrow> js_error + jsval" where
  "get v k = (if nullish v then Inl TypeError else Inr (property v k))"

text \<open>\<open>v?.k\<close>: \<open>undefined\<close> on \<open>undefined\<close> and \<open>null\<close>.\<close>

definition get_optional :: "jsval \<Rightarrow> string \<Rightarrow> jsval" where
  "get_optional v k = (if nullish v then Undefined else property v k)"

text \<open>The values that \<open>||\<close> and \<open>!\<close> take for true.\<close>

fun truthy :: "jsval \<Rightarrow> bool" where
  "truthy Undefined = False"
| "truthy Null = False"
| "truthy (Bool b) = b"
| "truthy (Num r) = (r \<noteq> 0)"
| "truthy NaN = False"
| "truthy (Str s) = (s \<noteq> [])"
| "truthy (Arr xs) = True"
| "truthy (Obj kvs) = True"

text \<open>\<open>a || b\<close>, both operands already evaluated to values.\<close>

definition or_else :: "jsval \<Rightarrow> jsval \<Rightarrow> jsval" where
  "or_else a b = (if truthy a then a else b)"

text \<open>
  \<open>xs.map(f)\<close>: the callback runs on each element from left to right and the first
  throw ends the call. A value that is not an array has no callable \<open>map\<close> (a JSON
  object that carries a key \<open>map\<close> holds data there, not a function): TypeError.
\<close>

fun map_elements :: "(jsval \<Rightarrow> js_error + 'a) \<Rightarrow> jsval list \<Rightarrow> js_error + 'a list" where
  "map_elements f [] = Inr []"
| "map_elements f (x # xs) = seq (f x) (\<lambda>y. seq (map_elements f xs) (\<lambda>ys. Inr (y # ys)))"

fun array_map :: "(jsval \<Rightarrow> js_error + 'a) \<Rightarrow> jsval \<Rightarrow> js_error + 'a list" where
  "array_map f (Arr xs) = map_elements f xs"
| "array_map f v = Inl TypeError"

text \<open>
  \<open>xs.find(p)\<close>: the first element on which the callback answers true, \<open>undefined\<close>
  when there is none; elements after the first hit are not visited.
\<close>

fun find_element :: "(jsval \<Rightarrow> js_error + bool) \<Rightarrow> jsval list \<Rightarrow> js_error + jsval" where
  "find_element p [] = Inr Undefined"
| "find_element p (x # xs) = seq (p x) (\<lambda>b. if b then Inr x else find_element p xs)"

fun array_find :: "(jsval \<Rightarrow> js_error + bool) \<Rightarrow> jsval \<Rightarrow> js_error + jsval" where
  "array_find p (Arr xs) = find_element p xs"
| "array_find p v = Inl TypeError"

section \<open>Strings\<close>

text \<open>
  Strings are sequences of 8-bit characters; \<open>toUpperCase\<close> is the ASCII case mapping
  (the names the API serves are lower-case ASCII words joined by hyphens).
\<close>

definition toUpperCase_char :: "char \<Rightarrow> char" where
  "toUpperCase_char c =
     (let n = (of_char c :: nat) in if 97 \<le> n \<and> n \<le> 122 then char_of (n - 32) else c)"

definition toUpperCase :: "string \<Rightarrow> string" where
  "toUpperCase s = map toUpperCase_char s"

text \<open>\<open>s.replace(/-/g, ' ')\<close>\<close>

definition replace_hyphens :: "string \<Rightarrow> string" where
  "replace_hyphens s = map (\<lambda>c. if c = CHR ''-'' then CHR '' '' else c) s"

text \<open>\<open>s.charAt(i)\<close>: the empty string when \<open>i\<close> is not an index of \<open>s\<close>.\<close>

definition charAt :: "string \<Rightarrow> nat \<Rightarrow> string" where
  "charAt s i = (if i < length s then [s ! i] else [])"

text \<open>\<open>s.slice(i)\<close> for \<open>i \<ge> 0\<close>: the empty string when \<open>i\<close> is past the end.\<close>

definition slice :: "string \<Rightarrow> nat \<Rightarrow> string" where
  "slice s i = drop i s"

section \<open>The Pokemon service (js/pokemon.js)\<close>

definition TOTAL_POKEMON :: nat where
  "TOTAL_POKEMON = 1008"

text \<open>
  \<open>capitalizeFirstLetter(string)\<close>. Only a string has a callable \<open>replace\<close>; any other
  argument throws a TypeError at \<open>string.replace\<close>.
\<close>

definition capitalize_string :: "string \<Rightarrow> string" where
  "capitalize_string s =
     (let fixedString = replace_hyphens s
      in toUpperCase (charAt fixedString 0) @ slice fixedString 1)"

fun capitalizeFirstLetter :: "jsval \<Rightarrow> js_error + string" where
  "capitalizeFirstLetter (Str s) = Inr (capitalize_string s)"
| "capitalizeFirstLetter v = Inl TypeError"

text \<open>\<open>findStat(stats, statName)\<close>\<close>

definition stat_name :: "jsval \<Rightarrow> js_error + jsval" where
  "stat_name s = seq (get s ''stat'') (\<lambda>st. get st ''name'')"

definition findStat :: "jsval \<Rightarrow> string \<Rightarrow> js_error + jsval" where
  "findStat stats statName =
     seq (array_find (\<lambda>s. seq (stat_name s) (\<lambda>n. Inr (n = Str statName))) stats)
       (\<lambda>stat. Inr (or_else (get_optional stat ''base_stat'') (Num 0)))"

text \<open>The record that \<open>processPokemonData\<close> builds.\<close>

record stats =
  hp :: jsval
  attack :: jsval
  defense :: jsval
  speed :: jsval

record pokemon =
  id' :: jsval
  name :: string
  sprite :: jsval
  types :: "jsval list"
  height :: jsval
  weight :: jsval
  abilities :: "string list"
  stats :: stats
  speciesUrl :: jsval

text \<open>
  \<open>x / 10\<close> first coerces \<open>x\<close> to a number. The coercion is the platform's \<open>ToNumber\<close>,
  which the sources do not define (it parses strings and can throw on an object); it is a
  parameter of the model. The quotient of a number is exact, that of \<open>NaN\<close> is \<open>NaN\<close>.
\<close>

fun divide_number :: "jsval \<Rightarrow> rat \<Rightarrow> jsval" where
  "divide_number (Num r) k = Num (r / k)"
| "divide_number v k = NaN"

definition divide :: "(jsval \<Rightarrow> js_error + jsval) \<Rightarrow> jsval \<Rightarrow> rat \<Rightarrow> js_error + jsval" where
  "divide ToNumber x k = seq (ToNumber x) (\<lambda>n. Inr (divide_number n k))"

text \<open>
  Line 71:
  \<open>data.sprites.other['official-artwork'].front_default || data.sprites.front_default\<close>
\<close>

definition official_artwork :: "jsval \<Rightarrow> js_error + jsval" where
  "official_artwork data =
     seq (get data ''sprites'') (\<lambda>sprites.
     seq (get sprites ''other'') (\<lambda>other.
     seq (get other ''official-artwork'') (\<lambda>artwork.
     get artwork ''front_default'')))"

definition default_sprite :: "jsval \<Rightarrow> js_error + jsval" where
  "default_sprite data = seq (get data ''sprites'') (\<lambda>sprites. get sprites ''front_default'')"

definition select_sprite :: "jsval \<Rightarrow> js_error + jsval" where
  "select_sprite data =
     seq (official_artwork data) (\<lambda>art. if truthy art then Inr art else default_sprite data)"

definition processPokemonData ::
  "(jsval \<Rightarrow> js_error + jsval) \<Rightarrow> jsval \<Rightarrow> js_error + pokemon" where
  "processPokemonData ToNumber data =
     seq (get data ''id'') (\<lambda>v_id.
     seq (seq (get data ''name'') capitalizeFirstLetter) (\<lambda>v_name.
     seq (select_sprite data) (\<lambda>v_sprite.
     seq (seq (get data ''types'')
            (array_map (\<lambda>t. seq (get t ''type'') (\<lambda>ty. get ty ''name'')))) (\<lambda>v_types.
     seq (seq (get data ''height'') (\<lambda>h. divide ToNumber h 10)) (\<lambda>v_height.
     seq (seq (get data ''weight'') (\<lambda>w. divide ToNumber w 10)) (\<lambda>v_weight.
     seq (seq (get data ''abilities'')
            (array_map (\<lambda>a. seq (seq (get a ''ability'') (\<lambda>ab. get ab ''name''))
                                 capitalizeFirstLetter))) (\<lambda>v_abilities.
     seq (seq (get data ''stats'') (\<lambda>st. findStat st ''hp'')) (\<lambda>v_hp.
     seq (seq (get data ''stats'') (\<lambda>st. findStat st ''attack'')) (\<lambda>v_attack.
     seq (seq (get data ''stats'') (\<lambda>st. findStat st ''defense'')) (\<lambda>v_defense.
     seq (seq (get data ''stats'') (\<lambda>st. findStat st ''speed'')) (\<lambda>v_speed.
     seq (seq (get data ''species'') (\<lambda>sp. get sp ''url'')) (\<lambda>v_url.
     Inr \<lparr> id' = v_id, name = v_name, sprite = v_sprite, types = v_types,
           height = v_height, weight = v_weight, abilities = v_abilities,
           stats = \<lparr> hp = v_hp, attack = v_attack, defense = v_defense, speed = v_speed \<rparr>,
           speciesUrl = v_url \<rparr>))))))))))))"

text \<open>
  An instance of the coercion for records whose measurements are JSON numbers, used to
  evaluate the model on sample records: exact on \<open>undefined\<close>, \<open>null\<close>, booleans and
  numbers. On strings, arrays and objects, where the platform parses text, it answers
  \<open>NaN\<close>.
\<close>

fun ToNumber_primitive :: "jsval \<Rightarrow> js_error + jsval" where
  "ToNumber_primitive Null = Inr (Num 0)"
| "ToNumber_primitive (Bool b) = Inr (Num (if b then 1 else 0))"
| "ToNumber_primitive (Num r) = Inr (Num r)"
| "ToNumber_primitive v = Inr NaN"

subsection \<open>Promises and the network\<close>

text \<open>
  A promise is pending forever, rejected with a reason, or resolved with a value. What the
  network answers to one call of \<open>fetchRandomPokemon\<close> is a \<open>lookup\<close>: the draw of
  \<open>Math.random()\<close>, the promise \<open>fetch\<close> returns for the identifier asked for, and the
  time at which the call completes.
\<close>

datatype 'a promise = Pending | Rejected js_error | Resolved 'a

record response =
  status :: nat
  json :: "jsval promise"

text \<open>\<open>response.ok\<close>: the status is in the range 200-299.\<close>

definition ok :: "response \<Rightarrow> bool" where
  "ok r = (200 \<le> status r \<and> status r \<le> 299)"

record lookup =
  Math_random :: rat
  fetch :: "nat \<Rightarrow> response promise"
  latency :: nat

text \<open>\<open>Math.floor(Math.random() * TOTAL_POKEMON) + 1\<close>\<close>

definition random_id :: "lookup \<Rightarrow> nat" where
  "random_id l = nat \<lfloor>Math_random l * of_nat TOTAL_POKEMON\<rfloor> + 1"

text \<open>The body of the \<open>try\<close> block of \<open>fetchRandomPokemon\<close>: every throw rejects.\<close>

definition fetch_and_process ::
  "(jsval \<Rightarrow> js_error + jsval) \<Rightarrow> lookup \<Rightarrow> pokemon promise" where
  "fetch_and_process ToNumber l =
     (let randomId = random_id l
      in case fetch l randomId of
           Pending \<Rightarrow> Pending
         | Rejected error \<Rightarrow> Rejected error
         | Resolved response \<Rightarrow>
             if \<not> ok response then Rejected (HttpError (status response))
             else (case json response of
                     Pending \<Rightarrow> Pending
                   | Rejected error \<Rightarrow> Rejected error
                   | Resolved data \<Rightarrow>
                       (case processPokemonData ToNumber data of
                          Inl error \<Rightarrow> Rejected error
                        | Inr processed \<Rightarrow> Resolved processed)))"

text \<open>\<open>fetchRandomPokemon()\<close>: the \<open>catch\<close> turns every rejection into \<open>null\<close> (\<open>None\<close>).\<close>

definition fetchRandomPokemon ::
  "(jsval \<Rightarrow> js_error + jsval) \<Rightarrow> lookup \<Rightarrow> pokemon option promise" where
  "fetchRandomPokemon ToNumber l =
     (case fetch_and_process ToNumber l of
        Pending \<Rightarrow> Pending
      | Rejected error \<Rightarrow> Resolved None
      | Resolved processed \<Rightarrow> Resolved (Some processed))"

text \<open>
  \<open>Promise.all\<close> over promises tagged with the time at which they settle. It visits the
  promises in the order of their settling: a resolved one stores its value at its own
  index, a rejected one rejects the whole, and the whole resolves once every index is
  filled.
\<close>

fun settle_all :: "'a promise list \<Rightarrow> nat list \<Rightarrow> 'a option list \<Rightarrow> 'a list promise" where
  "settle_all ps [] values =
     (case those values of None \<Rightarrow> Pending | Some vs \<Rightarrow> Resolved vs)"
| "settle_all ps (i # order) values =
     (case ps ! i of
        Pending \<Rightarrow> settle_all ps order values
      | Rejected e \<Rightarrow> Rejected e
      | Resolved v \<Rightarrow> settle_all ps order (values[i := Some v]))"

definition Promise_all :: "(nat \<times> 'a promise) list \<Rightarrow> 'a list promise" where
  "Promise_all ps =
     settle_all (map snd ps) (sort_key (\<lambda>i. fst (ps ! i)) [0..<length ps])
       (replicate (length ps) None)"

text \<open>
  \<open>fetchMultipleRandomPokemon(count)\<close>; \<open>env i\<close> is the lookup of the call made in
  iteration \<open>i\<close> of the loop.
\<close>

function push_promises ::
  "(jsval \<Rightarrow> js_error + jsval) \<Rightarrow> (nat \<Rightarrow> lookup) \<Rightarrow> nat \<Rightarrow> nat \<Rightarrow>
   (nat \<times> pokemon option promise) list \<Rightarrow> (nat \<times> pokemon option promise) list" where
  "push_promises ToNumber env count i promises =
     (if i < count
      then push_promises ToNumber env count (i + 1)
             (promises @ [(latency (env i), fetchRandomPokemon ToNumber (env i))])
      else promises)"
  by pat_completeness auto
termination
  by (relation "measure (\<lambda>(ToNumber, env, count, i, promises). count - i)") auto

declare push_promises.simps [simp del]

definition fetchMultipleRandomPokemon ::
  "(jsval \<Rightarrow> js_error + jsval) \<Rightarrow> (nat \<Rightarrow> lookup) \<Rightarrow> nat \<Rightarrow> pokemon option list promise" where
  "fetchMultipleRandomPokemon ToNumber env count =
     (let promises = push_promises ToNumber env count 0 []
      in case Promise_all promises of
           Pending \<Rightarrow> Pending
         | Rejected error \<Rightarrow> Resolved []
         | Resolved pokemonList \<Rightarrow> Resolved pokemonList)"

section \<open>The document\<close>

text \<open>
  A DOM string that the program writes is kept as the pieces it is made of: literal text,
  the text of a value (\<open>img.src = pokemon.sprite\<close>, a hole of a template literal), or
  \<open>JSON.stringify\<close> of a record.
\<close>

datatype piece = Lit string | Val jsval | Json pokemon

type_synonym domstring = "piece list"

text \<open>
  An element with its class list, its \<open>dataset\<close>, the attributes the program sets
  (\<open>src\<close>, \<open>alt\<close>), its inline style, its text and its child elements.
\<close>

datatype element =
  Element (tagName: string) (classList: "string list") (dataset: "(string \<times> domstring) list")
    (attributes: "(string \<times> domstring) list") (style: "(string \<times> string) list")
    (textContent: domstring) (children: "element list")

definition createElement :: "string \<Rightarrow> element" where
  "createElement tag = Element tag [] [] [] [] [] []"

definition map_classList :: "(string list \<Rightarrow> string list) \<Rightarrow> element \<Rightarrow> element" where
  "map_classList f e =
     (case e of Element t c d a s x ch \<Rightarrow> Element t (f c) d a s x ch)"

definition set_children :: "element list \<Rightarrow> element \<Rightarrow> element" where
  "set_children ch' e = (case e of Element t c d a s x ch \<Rightarrow> Element t c d a s x ch')"

text \<open>\<open>e.className = name\<close> for a single class name.\<close>

definition set_className :: "string \<Rightarrow> element \<Rightarrow> element" where
  "set_className cls e = map_classList (\<lambda>c. [cls]) e"

text \<open>Writing one key of a \<open>dataset\<close>, of the attributes or of the style.\<close>

fun assign_key :: "'k \<Rightarrow> 'v \<Rightarrow> ('k \<times> 'v) list \<Rightarrow> ('k \<times> 'v) list" where
  "assign_key k v [] = [(k, v)]"
| "assign_key k v ((k', v') # kvs) =
     (if k' = k then (k, v) # kvs else (k', v') # assign_key k v kvs)"

definition set_data :: "string \<Rightarrow> domstring \<Rightarrow> element \<Rightarrow> element" where
  "set_data k v e =
     (case e of Element t c d a s x ch \<Rightarrow> Element t c (assign_key k v d) a s x ch)"

definition set_attribute :: "string \<Rightarrow> domstring \<Rightarrow> element \<Rightarrow> element" where
  "set_attribute k v e =
     (case e of Element t c d a s x ch \<Rightarrow> Element t c d (assign_key k v a) s x ch)"

definition set_style :: "string \<Rightarrow> string \<Rightarrow> element \<Rightarrow> element" where
  "set_style k v e =
     (case e of Element t c d a s x ch \<Rightarrow> Element t c d a (assign_key k v s) x ch)"

text \<open>\<open>e.textContent = text\<close> on an element without child elements.\<close>

definition set_textContent :: "domstring \<Rightarrow> element \<Rightarrow> element" where
  "set_textContent v e = (case e of Element t c d a s x ch \<Rightarrow> Element t c d a s v [])"

text \<open>\<open>e.innerHTML = ''\<close>: no text and no children are left.\<close>

definition clear_innerHTML :: "element \<Rightarrow> element" where
  "clear_innerHTML e = (case e of Element t c d a s x ch \<Rightarrow> Element t c d a s [] [])"

definition appendChild :: "element \<Rightarrow> element \<Rightarrow> element" where
  "appendChild child parent = set_children (children parent @ [child]) parent"

text \<open>The operations of a class list (\<open>contains\<close>, \<open>add\<close>, \<open>remove\<close>, \<open>toggle\<close>).\<close>

definition token_contains :: "string list \<Rightarrow> string \<Rightarrow> bool" where
  "token_contains c t = (t \<in> set c)"

definition token_add :: "string \<Rightarrow> string list \<Rightarrow> string list" where
  "token_add t c = (if token_contains c t then c else c @ [t])"

definition token_remove :: "string \<Rightarrow> string list \<Rightarrow> string list" where
  "token_remove t c = filter (\<lambda>x. x \<noteq> t) c"

definition token_toggle :: "string \<Rightarrow> string list \<Rightarrow> string list" where
  "token_toggle t c = (if token_contains c t then token_remove t c else c @ [t])"

text \<open>
  A reference to an element is its path from the root of the document (the positions of
  the children to descend into). A path that leads to no element stands for \<open>null\<close>.
\<close>

type_synonym ref = "nat list"

fun element_at :: "element \<Rightarrow> ref \<Rightarrow> element option" where
  "element_at e [] = Some e"
| "element_at e (i # p) =
     (if i < length (children e) then element_at (children e ! i) p else None)"

fun update_at :: "ref \<Rightarrow> (element \<Rightarrow> element) \<Rightarrow> element \<Rightarrow> element" where
  "update_at [] f e = f e"
| "update_at (i # p) f e =
     (if i < length (children e)
      then set_children ((children e)[i := update_at p f (children e ! i)]) e
      else e)"

definition parentElement :: "ref \<Rightarrow> ref option" where
  "parentElement p = (if p = [] then None else Some (butlast p))"

text \<open>
  \<open>e.querySelector('.cls')\<close>: the first descendant of \<open>e\<close> in document order that has
  the class, as a path from \<open>e\<close>; \<open>None\<close> is \<open>null\<close>.
\<close>

fun first_with_class :: "string \<Rightarrow> element \<Rightarrow> ref option"
  and first_among :: "string \<Rightarrow> element list \<Rightarrow> nat \<Rightarrow> ref option" where
  "first_with_class cls (Element t c d a s x ch) =
     (if token_contains c cls then Some [] else first_among cls ch 0)"
| "first_among cls [] i = None"
| "first_among cls (e # es) i =
     (case first_with_class cls e of
        Some p \<Rightarrow> Some (i # p)
      | None \<Rightarrow> first_among cls es (Suc i))"

definition querySelector_class :: "string \<Rightarrow> element \<Rightarrow> ref option" where
  "querySelector_class cls e = first_among cls (children e) 0"

section \<open>The application (main script)\<close>

text \<open>
  The state of the page: the document, the two elements looked up by id when the script
  loads, the array \<open>cards\<close>, and whether the click listener is registered on the grid.
\<close>

record app =
  document :: element
  cardGrid :: ref
  loadingSpinner :: ref
  cards :: "ref list"
  clickListener :: bool

definition CARD_COUNT :: nat where
  "CARD_COUNT = 12"

definition DEBUG_SHOW_SPINNER :: bool where
  "DEBUG_SHOW_SPINNER = True"

definition LOADING_DELAY :: nat where
  "LOADING_DELAY = 4000"

text \<open>
  A statement on an element reference: a TypeError when the reference is \<open>null\<close>,
  otherwise the element is changed in place.
\<close>

definition on_element :: "ref \<Rightarrow> (element \<Rightarrow> element) \<Rightarrow> app \<Rightarrow> js_error option \<times> app" where
  "on_element r f s =
     (case element_at (document s) r of
        None \<Rightarrow> (Some TypeError, s)
      | Some e \<Rightarrow> (None, s\<lparr>document := update_at r f (document s)\<rparr>))"

definition showLoading :: "app \<Rightarrow> js_error option \<times> app" where
  "showLoading s = on_element (loadingSpinner s) (map_classList (token_remove ''hidden'')) s"

definition hideLoading :: "app \<Rightarrow> js_error option \<times> app" where
  "hideLoading s = on_element (loadingSpinner s) (map_classList (token_add ''hidden'')) s"

text \<open>\<open>createCardElement(index)\<close>\<close>

definition createCardElement :: "nat \<Rightarrow> element" where
  "createCardElement index =
     (let card = set_data ''index'' [Val (Num (of_nat index))]
                   (set_className ''card'' (createElement ''div''));
          cardInner = set_className ''card-inner'' (createElement ''div'');
          cardFront = set_className ''card-front'' (createElement ''div'');
          cardBack = set_className ''card-back'' (createElement ''div'');
          img = set_className ''pokemon-img''
                  (set_attribute ''alt'' [Lit (''Pok'' @ [CHR 0xE9] @ ''ball'')]
                    (set_attribute ''src'' [Lit ''assets/pokeball.png'']
                      (createElement ''img'')));
          cardFront = appendChild img cardFront;
          cardInner = appendChild cardFront cardInner;
          cardInner = appendChild cardBack cardInner
      in appendChild cardInner card)"

text \<open>
  \<open>createCardElements()\<close>. The card appended to the grid and the card pushed on \<open>cards\<close>
  are one element: \<open>cards\<close> receives the path of the new child of the grid.
\<close>

function create_cards :: "nat \<Rightarrow> app \<Rightarrow> app" where
  "create_cards i s =
     (if i < CARD_COUNT
      then (let card = createCardElement i;
                position = (case element_at (document s) (cardGrid s) of
                              None \<Rightarrow> 0 | Some grid \<Rightarrow> length (children grid))
            in create_cards (i + 1)
                 (s\<lparr>document := update_at (cardGrid s) (appendChild card) (document s),
                    cards := cards s @ [cardGrid s @ [position]]\<rparr>))
      else s)"
  by pat_completeness auto
termination
  by (relation "measure (\<lambda>(i, s). CARD_COUNT - i)") auto

declare create_cards.simps [simp del]

definition createCardElements :: "app \<Rightarrow> js_error option \<times> app" where
  "createCardElements s =
     (case on_element (cardGrid s) clear_innerHTML s of
        (Some error, s') \<Rightarrow> (Some error, s')
      | (None, s') \<Rightarrow> (None, create_cards 0 (s'\<lparr>cards := []\<rparr>)))"

text \<open>\<open>assignPokemonToCard(card, pokemon)\<close>: what is put on the back of the card.\<close>

definition type_badge :: "jsval \<Rightarrow> element" where
  "type_badge t =
     set_textContent [Val t] (set_className ''type-badge'' (createElement ''span''))"

definition card_back_content :: "pokemon \<Rightarrow> element list" where
  "card_back_content pokemon =
     (let imgWrapper = set_style ''justifyContent'' ''center''
                         (set_style ''display'' ''flex''
                           (set_style ''width'' ''100%'' (createElement ''div'')));
          img = set_className ''pokemon-img''
                  (set_attribute ''alt'' [Lit (name pokemon)]
                    (set_attribute ''src'' [Val (sprite pokemon)] (createElement ''img'')));
          imgWrapper = appendChild img imgWrapper;
          name' = set_textContent [Lit (name pokemon)] (createElement ''h2'');
          typesDiv = set_className ''pokemon-types'' (createElement ''div'');
          typesDiv = fold (\<lambda>t typesDiv. appendChild (type_badge t) typesDiv) (types pokemon) typesDiv;
          statsText = set_textContent
                        [Lit ''Height: '', Val (height pokemon), Lit ''m | Weight: '',
                         Val (weight pokemon), Lit ''kg | Abilities: '',
                         Val (Num (of_nat (length (abilities pokemon))))]
                        (createElement ''p'')
      in [imgWrapper, name', typesDiv, statsText])"

definition fill_card_back :: "pokemon \<Rightarrow> element \<Rightarrow> element" where
  "fill_card_back pokemon cardBack =
     fold appendChild (card_back_content pokemon) (clear_innerHTML cardBack)"

text \<open>
  The guard returns on a missing card or a missing (\<open>null\<close>, \<open>undefined\<close>) record. A card
  without a \<open>.card-back\<close> descendant throws at \<open>cardBack.innerHTML\<close>, after the dataset
  has been written.
\<close>

definition assignPokemonToCard :: "ref \<Rightarrow> pokemon option \<Rightarrow> element \<Rightarrow> js_error option \<times> element" where
  "assignPokemonToCard card_ref pokemon doc =
     (case element_at doc card_ref of
        None \<Rightarrow> (None, doc)
      | Some c \<Rightarrow>
          (case pokemon of
             None \<Rightarrow> (None, doc)
           | Some p \<Rightarrow>
               (let doc = update_at card_ref (set_data ''pokemon'' [Json p]) doc
                in case querySelector_class ''card-back'' (set_data ''pokemon'' [Json p] c) of
                     None \<Rightarrow> (Some TypeError, doc)
                   | Some cardBack \<Rightarrow>
                       (None, update_at (card_ref @ cardBack) (fill_card_back p) doc))))"

text \<open>\<open>pokemonList[i]\<close>: \<open>undefined\<close> past the end of the array.\<close>

definition item :: "'a option list \<Rightarrow> nat \<Rightarrow> 'a option" where
  "item xs i = (if i < length xs then xs ! i else None)"

function assign_cards :: "pokemon option list \<Rightarrow> nat \<Rightarrow> app \<Rightarrow> js_error option \<times> app" where
  "assign_cards pokemonList i s =
     (if i < length (cards s)
      then (case assignPokemonToCard (cards s ! i) (item pokemonList i) (document s) of
              (Some error, doc) \<Rightarrow> (Some error, s\<lparr>document := doc\<rparr>)
            | (None, doc) \<Rightarrow> assign_cards pokemonList (i + 1) (s\<lparr>document := doc\<rparr>))
      else (None, s))"
  by pat_completeness auto
termination
  by (relation "measure (\<lambda>(pokemonList, i, s). length (cards s) - i)") auto

declare assign_cards.simps [simp del]

text \<open>
  \<open>await new Promise(resolve => setTimeout(resolve, ms))\<close>: the timer fires, the promise
  resolves, and the page is as it was.
\<close>

definition delay :: "nat \<Rightarrow> app \<Rightarrow> unit promise \<times> app" where
  "delay ms s = (Resolved (), s)"

text \<open>
  \<open>fetchAndAssignPokemon()\<close>. Whatever is thrown inside the \<open>try\<close> is caught and
  logged, so the call always resolves once the batch has.
\<close>

definition fetchAndAssignPokemon ::
  "(jsval \<Rightarrow> js_error + jsval) \<Rightarrow> (nat \<Rightarrow> lookup) \<Rightarrow> app \<Rightarrow> unit promise \<times> app" where
  "fetchAndAssignPokemon ToNumber env s =
     (case fetchMultipleRandomPokemon ToNumber env CARD_COUNT of
        Pending \<Rightarrow> (Pending, s)
      | Rejected error \<Rightarrow> (Resolved (), s)
      | Resolved pokemonList \<Rightarrow>
          (case (if DEBUG_SHOW_SPINNER then delay LOADING_DELAY s else (Resolved (), s)) of
             (Pending, s) \<Rightarrow> (Pending, s)
           | (Rejected error, s) \<Rightarrow> (Resolved (), s)
           | (Resolved u, s) \<Rightarrow> (Resolved (), snd (assign_cards pokemonList 0 s))))"

text \<open>\<open>handleCardClick(event)\<close>; the loop climbs from \<open>event.target\<close>.\<close>

function closest_card :: "element \<Rightarrow> ref option \<Rightarrow> ref option" where
  "closest_card doc element =
     (case element of
        None \<Rightarrow> None
      | Some r \<Rightarrow>
          (case element_at doc r of
             None \<Rightarrow> None
           | Some e \<Rightarrow>
               if token_contains (classList e) ''card'' then Some r
               else closest_card doc (parentElement r)))"
  by pat_completeness auto
termination
  by (relation "measure (\<lambda>(doc, element). case element of None \<Rightarrow> 0 | Some r \<Rightarrow> Suc (length r))")
    (auto simp: parentElement_def split: if_splits)

declare closest_card.simps [simp del]

definition handleCardClick :: "ref \<Rightarrow> app \<Rightarrow> app" where
  "handleCardClick target s =
     (case closest_card (document s) (Some target) of
        None \<Rightarrow> s
      | Some element \<Rightarrow>
          s\<lparr>document := update_at element (map_classList (token_toggle ''flipped'')) (document s)\<rparr>)"

definition setupEventListeners :: "app \<Rightarrow> js_error option \<times> app" where
  "setupEventListeners s =
     (case element_at (document s) (cardGrid s) of
        None \<Rightarrow> (Some TypeError, s)
      | Some grid \<Rightarrow> (None, s\<lparr>clickListener := True\<rparr>))"

text \<open>\<open>initApp()\<close>: a throw outside \<open>fetchAndAssignPokemon\<close> rejects the call.\<close>

definition initApp ::
  "(jsval \<Rightarrow> js_error + jsval) \<Rightarrow> (nat \<Rightarrow> lookup) \<Rightarrow> app \<Rightarrow> unit promise \<times> app" where
  "initApp ToNumber env s =
     (case showLoading s of
        (Some error, s) \<Rightarrow> (Rejected error, s)
      | (None, s) \<Rightarrow>
     (case on_element (cardGrid s) (map_classList (token_add ''hidden'')) s of
        (Some error, s) \<Rightarrow> (Rejected error, s)
      | (None, s) \<Rightarrow>
     (case createCardElements s of
        (Some error, s) \<Rightarrow> (Rejected error, s)
      | (None, s) \<Rightarrow>
     (case fetchAndAssignPokemon ToNumber env s of
        (Pending, s) \<Rightarrow> (Pending, s)
      | (Rejected error, s) \<Rightarrow> (Rejected error, s)
      | (Resolved u, s) \<Rightarrow>
     (case setupEventListeners s of
        (Some error, s) \<Rightarrow> (Rejected error, s)
      | (None, s) \<Rightarrow>
     (case hideLoading s of
        (Some error, s) \<Rightarrow> (Rejected error, s)
      | (None, s) \<Rightarrow>
     (case on_element (cardGrid s) (map_classList (token_remove ''hidden'')) s of
        (Some error, s) \<Rightarrow> (Rejected error, s)
      | (None, s) \<Rightarrow> (Resolved (), s))))))))"

section \<open>Notions of the specification\<close>

text \<open>
  The text capitalization in the specification's words: all hyphens replaced with spaces,
  then only the first character of the result in upper case.
\<close>

definition capitalize_spec :: "string \<Rightarrow> string" where
  "capitalize_spec s =
     (case replace_hyphens s of [] \<Rightarrow> [] | c # cs \<Rightarrow> toUpperCase_char c # cs)"

text \<open>
  An entry that carries a stat: a value on which the read \<open>s.stat.name\<close> does not throw,
  that is, neither the entry nor its \<open>stat\<close> is \<open>undefined\<close> or \<open>null\<close>.
  \<open>stat_named n\<close> holds of the entries whose stat name is \<open>n\<close>, and \<open>entry n b\<close> is the
  entry the API serves for stat \<open>n\<close> with base value \<open>b\<close>.
\<close>

definition stat_entry :: "jsval \<Rightarrow> bool" where
  "stat_entry e = (case stat_name e of Inl error \<Rightarrow> False | Inr n \<Rightarrow> True)"

definition stat_named :: "string \<Rightarrow> jsval \<Rightarrow> bool" where
  "stat_named n e = (stat_name e = Inr (Str n))"

definition entry :: "string \<Rightarrow> rat \<Rightarrow> jsval" where
  "entry n b = Obj [(''base_stat'', Num b), (''effort'', Num 0),
     (''stat'', Obj [(''name'', Str n), (''url'', Str ''https://pokeapi.co/api/v2/stat/'')])]"

text \<open>
  A record of the shape the API serves, with the \<open>sprites\<close> field left open, and three
  values for that field: both images present, only the default one, neither.
\<close>

definition raw_pokemon :: "jsval \<Rightarrow> jsval" where
  "raw_pokemon sprites =
     Obj [(''id'', Num 1), (''name'', Str ''bulbasaur''), (''sprites'', sprites),
          (''types'', Arr [Obj [(''slot'', Num 1), (''type'', Obj [(''name'', Str ''grass'')])],
                           Obj [(''slot'', Num 2), (''type'', Obj [(''name'', Str ''poison'')])]]),
          (''height'', Num 7), (''weight'', Num 69),
          (''abilities'', Arr [Obj [(''ability'', Obj [(''name'', Str ''overgrow'')])],
                               Obj [(''ability'', Obj [(''name'', Str ''solar-power'')])]]),
          (''stats'', Arr [entry ''hp'' 45, entry ''attack'' 49, entry ''defense'' 49,
                           entry ''speed'' 45]),
          (''species'', Obj [(''name'', Str ''bulbasaur''),
                             (''url'', Str ''https://pokeapi.co/api/v2/pokemon-species/1/'')])]"

definition sprites_both :: jsval where
  "sprites_both =
     Obj [(''front_default'', Str ''sprites/1.png''),
          (''other'', Obj [(''official-artwork'',
                            Obj [(''front_default'', Str ''artwork/1.png'')])])]"

definition sprites_default_only :: jsval where
  "sprites_default_only =
     Obj [(''front_default'', Str ''sprites/1.png''),
          (''other'', Obj [(''official-artwork'', Obj [(''front_default'', Null)])])]"

definition sprites_neither :: jsval where
  "sprites_neither = Obj [(''other'', Obj [(''official-artwork'', Obj [])])]"

text \<open>
  A lookup settles when the transport answers: \<open>fetch\<close> is not pending forever, and
  neither is the reading of the body of a response that is read.
\<close>

definition settles :: "lookup \<Rightarrow> bool" where
  "settles l =
     (case fetch l (random_id l) of
        Pending \<Rightarrow> False
      | Rejected e \<Rightarrow> True
      | Resolved r \<Rightarrow> \<not> ok r \<or> (case json r of Pending \<Rightarrow> False | _ \<Rightarrow> True))"

text \<open>
  The failure kinds of the specification: the transport fails, the status is not a
  success status, or the body cannot be read into a record (it is not JSON, or a field
  that the normalization dereferences is missing).
\<close>

datatype failure = TransportError | RemoteError nat | MalformedResponseError

definition failure_of :: "(jsval \<Rightarrow> js_error + jsval) \<Rightarrow> lookup \<Rightarrow> failure option" where
  "failure_of ToNumber l =
     (case fetch l (random_id l) of
        Pending \<Rightarrow> None
      | Rejected e \<Rightarrow> Some TransportError
      | Resolved r \<Rightarrow>
          if \<not> ok r then Some (RemoteError (status r))
          else (case json r of
                  Pending \<Rightarrow> None
                | Rejected e \<Rightarrow> Some MalformedResponseError
                | Resolved data \<Rightarrow>
                    (case processPokemonData ToNumber data of
                       Inl e \<Rightarrow> Some MalformedResponseError
                     | Inr p \<Rightarrow> None)))"

text \<open>What a settled call of \<open>fetchRandomPokemon\<close> resolves with.\<close>

definition settled_value :: "(jsval \<Rightarrow> js_error + jsval) \<Rightarrow> lookup \<Rightarrow> pokemon option" where
  "settled_value ToNumber l =
     (case fetch_and_process ToNumber l of Resolved p \<Rightarrow> Some p | _ \<Rightarrow> None)"

text \<open>
  Four sample lookups: the network is down, the server answers 404, the body is an empty
  object, the body is a full record.
\<close>

definition lookup_offline :: lookup where
  "lookup_offline =
     \<lparr> Math_random = 1 / 2, fetch = (\<lambda>n. Rejected NetworkError), latency = 40 \<rparr>"

definition lookup_404 :: lookup where
  "lookup_404 =
     \<lparr> Math_random = 1 / 4,
       fetch = (\<lambda>n. Resolved \<lparr> status = 404, json = Rejected SyntaxError \<rparr>),
       latency = 30 \<rparr>"

definition lookup_malformed :: lookup where
  "lookup_malformed =
     \<lparr> Math_random = 3 / 4,
       fetch = (\<lambda>n. Resolved \<lparr> status = 200, json = Resolved (Obj []) \<rparr>),
       latency = 20 \<rparr>"

definition lookup_good :: lookup where
  "lookup_good =
     \<lparr> Math_random = 0,
       fetch = (\<lambda>n. Resolved \<lparr> status = 200, json = Resolved (raw_pokemon sprites_both) \<rparr>),
       latency = 10 \<rparr>"

definition sample_env :: "nat \<Rightarrow> lookup" where
  "sample_env i = [lookup_good, lookup_offline, lookup_404, lookup_malformed, lookup_good] ! i"

definition bulbasaur :: pokemon where
  "bulbasaur =
     \<lparr> id' = Num 1, name = ''Bulbasaur'', sprite = Str ''artwork/1.png'',
       types = [Str ''grass'', Str ''poison''], height = Num (7 / 10), weight = Num (69 / 10),
       abilities = [''Overgrow'', ''Solar power''],
       stats = \<lparr> hp = Num 45, attack = Num 49, defense = Num 49, speed = Num 45 \<rparr>,
       speciesUrl = Str ''https://pokeapi.co/api/v2/pokemon-species/1/'' \<rparr>"

text \<open>
  The state of a slot as the specification names it: \<open>revealed\<close> is the class
  \<open>flipped\<close> on the card, the bound entity is the record stored in its dataset; the
  loading indicator and the grid are hidden by the class \<open>hidden\<close>.
\<close>

definition revealed :: "element \<Rightarrow> ref \<Rightarrow> bool" where
  "revealed doc r =
     (case element_at doc r of
        None \<Rightarrow> False
      | Some e \<Rightarrow> token_contains (classList e) ''flipped'')"

definition hidden :: "element \<Rightarrow> ref \<Rightarrow> bool" where
  "hidden doc r =
     (case element_at doc r of
        None \<Rightarrow> False
      | Some e \<Rightarrow> token_contains (classList e) ''hidden'')"

definition boundEntity :: "element \<Rightarrow> ref \<Rightarrow> domstring option" where
  "boundEntity doc r =
     (case element_at doc r of
        None \<Rightarrow> None
      | Some e \<Rightarrow> map_of (dataset e) ''pokemon'')"

text \<open>A document with every class list emptied: all of it but the classes.\<close>

fun without_classes :: "element \<Rightarrow> element" where
  "without_classes (Element t c d a s x ch) = Element t [] d a s x (map without_classes ch)"

text \<open>
  A sample page: the loading indicator and the grid side by side under the body; and a
  network on which every lookup fails.
\<close>

definition sample_page :: element where
  "sample_page =
     Element ''body'' [] [] [] [] []
       [Element ''div'' [''spinner''] [] [] [] [] [],
        Element ''main'' [''card-grid''] [] [] [] []
          [Element ''p'' [] [] [] [] [Lit ''loading''] []]]"

definition sample_app :: app where
  "sample_app =
     \<lparr> document = sample_page, cardGrid = [1], loadingSpinner = [0], cards = [],
       clickListener = False \<rparr>"

definition offline_env :: "nat \<Rightarrow> lookup" where
  "offline_env i = lookup_offline"

text \<open>A page whose grid holds two cards, as \<open>createCardElements\<close> leaves them.\<close>

definition two_cards_app :: app where
  "two_cards_app =
     \<lparr> document =
         Element ''body'' [] [] [] [] []
           [Element ''div'' [''spinner'', ''hidden''] [] [] [] [] [],
            Element ''main'' [''card-grid''] [] [] [] []
              [createCardElement 0, createCardElement 1]],
       cardGrid = [1], loadingSpinner = [0], cards = [[1, 0], [1, 1]],
       clickListener = True \<rparr>"

section \<open>Text capitalization\<close>

text \<open>
  C5: on every string, \<open>capitalizeFirstLetter\<close> replaces all hyphens with spaces and then
  puts only the first character of the result in upper case, the rest untouched; it
  sends "ice-cream" to "Ice cream" and "fire" to "Fire".
\<close>

theorem capitalizeFirstLetter_spec:
  "capitalizeFirstLetter (Str s) = Inr (capitalize_spec s)
   \<and> capitalizeFirstLetter (Str ''ice-cream'') = Inr ''Ice cream''
   \<and> capitalizeFirstLetter (Str ''fire'') = Inr ''Fire''"
proof -
  have "capitalize_string s = capitalize_spec s"
    by (cases s)
      (simp_all add: capitalize_string_def capitalize_spec_def replace_hyphens_def
        charAt_def slice_def toUpperCase_def)
  moreover have "capitalize_string ''ice-cream'' = ''Ice cream''"
    by code_simp
  moreover have "capitalize_string ''fire'' = ''Fire''"
    by code_simp
  ultimately show ?thesis
    by simp
qed

text \<open>
  C10: on the empty string \<open>capitalizeFirstLetter\<close> returns the empty string and throws
  nothing; \<open>charAt(0)\<close> and \<open>slice(1)\<close> of the empty string are the empty string.
\<close>

theorem capitalizeFirstLetter_empty:
  "capitalizeFirstLetter (Str []) = Inr [] \<and> charAt [] 0 = [] \<and> slice [] 1 = []"
  by (simp add: capitalize_string_def replace_hyphens_def charAt_def slice_def toUpperCase_def)

section \<open>Stat lookup\<close>

lemma stat_entry_not_nullish: "stat_entry e \<Longrightarrow> \<not> nullish e"
  by (auto simp: stat_entry_def stat_name_def seq_def get_def nullish_def
      split: sum.splits if_splits)

lemma find_element_entries:
  assumes "\<forall>e\<in>set es. stat_entry e"
  shows "find_element (\<lambda>s. seq (stat_name s) (\<lambda>n. Inr (n = Str nm))) es =
         Inr (case find (stat_named nm) es of None \<Rightarrow> Undefined | Some e \<Rightarrow> e)"
  using assms
proof (induction es)
  case Nil
  show ?case by simp
next
  case (Cons e es)
  from Cons.prems obtain n where n: "stat_name e = Inr n"
    by (auto simp: stat_entry_def split: sum.splits)
  from Cons.prems have "\<forall>e\<in>set es. stat_entry e" by simp
  with Cons.IH n show ?case
    by (simp add: seq_def stat_named_def)
qed

text \<open>
  C6, as the code has it: on a list whose entries each carry a stat, \<open>findStat\<close> does
  not throw; it returns the \<open>base_stat\<close> of the first entry whose stat name is the one
  asked for when that value is truthy, and 0 when it is falsy (so a numeric \<open>base_stat\<close>
  is always returned as it is) or when no entry has that name. A list without "speed"
  gives 0 and a list with a "speed" entry of base value 90 gives 90.
\<close>

theorem findStat_lookup:
  "((\<forall>e\<in>set es. stat_entry e) \<longrightarrow>
      findStat (Arr es) nm =
        Inr (case find (stat_named nm) es of
               None \<Rightarrow> Num 0
             | Some e \<Rightarrow>
                 if truthy (property e ''base_stat'') then property e ''base_stat''
                 else Num 0))
   \<and> findStat (Arr [entry ''hp'' 45, entry ''attack'' 49]) ''speed'' = Inr (Num 0)
   \<and> findStat (Arr [entry ''hp'' 45, entry ''speed'' 90]) ''speed'' = Inr (Num 90)"
proof -
  have general: "findStat (Arr es) nm =
        Inr (case find (stat_named nm) es of
               None \<Rightarrow> Num 0
             | Some e \<Rightarrow>
                 if truthy (property e ''base_stat'') then property e ''base_stat''
                 else Num 0)" if wf: "\<forall>e\<in>set es. stat_entry e"
  proof (cases "find (stat_named nm) es")
    case None
    with find_element_entries [OF wf, of nm] show ?thesis
      by (simp add: findStat_def seq_def get_optional_def nullish_def or_else_def)
  next
    case (Some e)
    then have "e \<in> set es"
      by (auto simp: find_Some_iff)
    with wf have e: "stat_entry e" by blast
    then have "\<not> nullish e" by (rule stat_entry_not_nullish)
    with find_element_entries [OF wf, of nm] Some show ?thesis
      by (simp add: findStat_def seq_def get_optional_def or_else_def)
  qed
  have "findStat (Arr [entry ''hp'' 45, entry ''attack'' 49]) ''speed'' = Inr (Num 0)"
    by code_simp
  moreover have "findStat (Arr [entry ''hp'' 45, entry ''speed'' 90]) ''speed'' = Inr (Num 90)"
    by code_simp
  ultimately show ?thesis
    using general by blast
qed

theorem findStat_lookup_witness:
  "stat_entry (entry ''hp'' 45)
   \<and> stat_entry (Obj [(''base_stat'', Null), (''stat'', Obj [(''name'', Str ''speed'')])])
   \<and> findStat (Arr [entry ''hp'' 45,
                    Obj [(''base_stat'', Null), (''stat'', Obj [(''name'', Str ''speed'')])]])
        ''hp'' = Inr (Num 45)
   \<and> findStat (Arr [entry ''hp'' 45,
                    Obj [(''base_stat'', Null), (''stat'', Obj [(''name'', Str ''speed'')])]])
        ''speed'' = Inr (Num 0)"
proof -
  let ?speed = "Obj [(''base_stat'', Null), (''stat'', Obj [(''name'', Str ''speed'')])]"
  have 1: "stat_entry (entry ''hp'' 45)" and 2: "stat_entry ?speed"
    by (simp_all add: entry_def stat_entry_def stat_name_def seq_def get_def nullish_def)
  then have wf: "\<forall>e\<in>set [entry ''hp'' 45, ?speed]. stat_entry e"
    by simp
  have "find (stat_named ''hp'') [entry ''hp'' 45, ?speed] = Some (entry ''hp'' 45)"
    and "find (stat_named ''speed'') [entry ''hp'' 45, ?speed] = Some ?speed"
    by (simp_all add: entry_def stat_named_def stat_name_def seq_def get_def nullish_def)
  moreover have "property (entry ''hp'' 45) ''base_stat'' = Num 45"
    by (simp add: entry_def)
  ultimately show ?thesis
    using 1 2 wf findStat_lookup [of "[entry ''hp'' 45, ?speed]" "''hp''"]
      findStat_lookup [of "[entry ''hp'' 45, ?speed]" "''speed''"]
    by simp
qed

text \<open>
  An entry without a \<open>stat\<close> makes the search throw although no entry matches, and a
  matching entry whose \<open>base_stat\<close> is \<open>null\<close> gives 0, not its \<open>base_stat\<close>.
\<close>

theorem findStat_counterexample:
  "findStat (Arr [Obj [(''base_stat'', Num 5)]]) ''speed'' = Inl TypeError
   \<and> findStat (Arr [Obj [(''base_stat'', Null), (''stat'', Obj [(''name'', Str ''speed'')])]])
        ''speed'' = Inr (Num 0)"
proof -
  have "findStat (Arr [Obj [(''base_stat'', Num 5)]]) ''speed'' = Inl TypeError"
    by code_simp
  moreover have
    "findStat (Arr [Obj [(''base_stat'', Null), (''stat'', Obj [(''name'', Str ''speed'')])]])
        ''speed'' = Inr (Num 0)"
    by code_simp
  ultimately show ?thesis
    by simp
qed

section \<open>Sprite selection\<close>

lemma seq_Inr_iff: "seq m f = Inr y \<longleftrightarrow> (\<exists>x. m = Inr x \<and> f x = Inr y)"
  by (cases m) (simp_all add: seq_def)

text \<open>
  C1, as the code has it: whenever \<open>sprites.other['official-artwork']\<close> is there, the
  selection does not throw and yields its \<open>front_default\<close> when that value is truthy and
  \<open>sprites.front_default\<close> as it reads otherwise (\<open>undefined\<close> when absent); the sprite of
  a normalized record is the selected value.
\<close>

theorem sprite_selection:
  "(get data ''sprites'' = Inr sprites \<longrightarrow> get sprites ''other'' = Inr other \<longrightarrow>
    get other ''official-artwork'' = Inr artwork \<longrightarrow> \<not> nullish artwork \<longrightarrow>
      select_sprite data =
        Inr (if truthy (property artwork ''front_default'')
             then property artwork ''front_default''
             else property sprites ''front_default''))
   \<and> (processPokemonData ToNumber data = Inr p \<longrightarrow> select_sprite data = Inr (sprite p))"
proof (intro conjI impI)
  assume "get data ''sprites'' = Inr sprites" "get sprites ''other'' = Inr other"
    "get other ''official-artwork'' = Inr artwork" "\<not> nullish artwork"
  then show "select_sprite data =
        Inr (if truthy (property artwork ''front_default'')
             then property artwork ''front_default''
             else property sprites ''front_default'')"
    by (auto simp: select_sprite_def official_artwork_def default_sprite_def seq_def get_def
        split: if_splits)
next
  assume "processPokemonData ToNumber data = Inr p"
  then obtain v where v: "select_sprite data = Inr v" and "sprite p = v"
    unfolding processPokemonData_def seq_Inr_iff by auto
  then show "select_sprite data = Inr (sprite p)"
    by simp
qed

theorem sprite_selection_witness:
  "select_sprite (raw_pokemon sprites_both) = Inr (Str ''artwork/1.png'')
   \<and> select_sprite (raw_pokemon sprites_default_only) = Inr (Str ''sprites/1.png'')
   \<and> processPokemonData ToNumber_primitive (raw_pokemon sprites_both) = Inr bulbasaur
   \<and> select_sprite (raw_pokemon sprites_both) = Inr (sprite bulbasaur)"
proof -
  have 1: "get (raw_pokemon sprites_both) ''sprites'' = Inr sprites_both"
    "get (raw_pokemon sprites_default_only) ''sprites'' = Inr sprites_default_only"
    by (simp_all add: raw_pokemon_def get_def nullish_def)
  have 2: "get sprites_both ''other'' =
      Inr (Obj [(''official-artwork'', Obj [(''front_default'', Str ''artwork/1.png'')])])"
    "get sprites_default_only ''other'' =
      Inr (Obj [(''official-artwork'', Obj [(''front_default'', Null)])])"
    by (simp_all add: sprites_both_def sprites_default_only_def get_def nullish_def)
  have 3: "get (Obj [(''official-artwork'', Obj [(''front_default'', Str ''artwork/1.png'')])])
      ''official-artwork'' = Inr (Obj [(''front_default'', Str ''artwork/1.png'')])"
    "get (Obj [(''official-artwork'', Obj [(''front_default'', Null)])])
      ''official-artwork'' = Inr (Obj [(''front_default'', Null)])"
    by (simp_all add: get_def nullish_def)
  have 4: "property sprites_default_only ''front_default'' = Str ''sprites/1.png''"
    by (simp add: sprites_default_only_def)
  have 5: "processPokemonData ToNumber_primitive (raw_pokemon sprites_both) = Inr bulbasaur"
    by code_simp
  show ?thesis
    using sprite_selection [of "raw_pokemon sprites_both" sprites_both _ _ ToNumber_primitive
        bulbasaur, THEN conjunct1, rule_format, OF 1(1) 2(1) 3(1)]
      sprite_selection [of "raw_pokemon sprites_default_only" sprites_default_only _ _
        ToNumber_primitive bulbasaur, THEN conjunct1, rule_format, OF 1(2) 2(2) 3(2)]
      sprite_selection [of "raw_pokemon sprites_both" sprites_both _ _ ToNumber_primitive
        bulbasaur, THEN conjunct2, rule_format, OF 5] 4 5
    by (simp add: nullish_def)
qed

text \<open>
  A record whose two image fields are both absent is normalized without error, and its
  sprite is \<open>undefined\<close>, not the empty string.
\<close>

theorem sprite_neither_counterexample:
  "processPokemonData ToNumber_primitive (raw_pokemon sprites_neither) =
     Inr \<lparr> id' = Num 1, name = ''Bulbasaur'', sprite = Undefined,
           types = [Str ''grass'', Str ''poison''], height = Num (7 / 10), weight = Num (69 / 10),
           abilities = [''Overgrow'', ''Solar power''],
           stats = \<lparr> hp = Num 45, attack = Num 49, defense = Num 49, speed = Num 45 \<rparr>,
           speciesUrl = Str ''https://pokeapi.co/api/v2/pokemon-species/1/'' \<rparr>
   \<and> Undefined \<noteq> Str []"
proof -
  have "processPokemonData ToNumber_primitive (raw_pokemon sprites_neither) =
     Inr \<lparr> id' = Num 1, name = ''Bulbasaur'', sprite = Undefined,
           types = [Str ''grass'', Str ''poison''], height = Num (7 / 10), weight = Num (69 / 10),
           abilities = [''Overgrow'', ''Solar power''],
           stats = \<lparr> hp = Num 45, attack = Num 49, defense = Num 49, speed = Num 45 \<rparr>,
           speciesUrl = Str ''https://pokeapi.co/api/v2/pokemon-species/1/'' \<rparr>"
    by code_simp
  then show ?thesis
    by simp
qed

section \<open>The batch of lookups\<close>

lemma push_promises_map:
  "push_promises T env count i ps =
     ps @ map (\<lambda>j. (latency (env j), fetchRandomPokemon T (env j))) [i..<count]"
proof (induction T env count i ps rule: push_promises.induct)
  case (1 T env count i ps)
  show ?case
  proof (cases "i < count")
    case True
    with 1 show ?thesis
      by (subst push_promises.simps) (simp add: upt_conv_Cons)
  next
    case False
    then show ?thesis
      by (subst push_promises.simps) simp
  qed
qed

lemma those_map_Some: "those (map Some xs) = Some xs"
  by (induction xs) simp_all

lemma settle_all_resolved:
  assumes "length vals = length ps"
    and "\<forall>i\<in>set order. i < length ps"
    and "\<forall>i<length ps. ps ! i = Resolved (f i)"
    and "\<forall>i<length ps. i \<notin> set order \<longrightarrow> vals ! i = Some (f i)"
  shows "settle_all ps order vals = Resolved (map f [0..<length ps])"
  using assms
proof (induction order arbitrary: vals)
  case Nil
  then have "vals = map Some (map f [0..<length ps])"
    by (intro nth_equalityI) simp_all
  then show ?case
    by (simp add: those_map_Some del: map_map)
next
  case (Cons i order)
  from Cons.prems have i: "i < length ps" and pi: "ps ! i = Resolved (f i)"
    by auto
  have "settle_all ps order (vals[i := Some (f i)]) = Resolved (map f [0..<length ps])"
  proof (rule Cons.IH)
    show "length (vals[i := Some (f i)]) = length ps"
      using Cons.prems by simp
    show "\<forall>i\<in>set order. i < length ps"
      using Cons.prems by simp
    show "\<forall>i<length ps. ps ! i = Resolved (f i)"
      using Cons.prems by simp
    show "\<forall>j<length ps. j \<notin> set order \<longrightarrow> vals[i := Some (f i)] ! j = Some (f j)"
      using Cons.prems by (simp add: nth_list_update)
  qed
  with pi show ?case
    by simp
qed

lemma Promise_all_resolved:
  assumes "\<forall>i<length ps. snd (ps ! i) = Resolved (f i)"
  shows "Promise_all ps = Resolved (map f [0..<length ps])"
proof -
  have "settle_all (map snd ps) (sort_key (\<lambda>i. fst (ps ! i)) [0..<length ps])
          (replicate (length ps) None) = Resolved (map f [0..<length (map snd ps)])"
  proof (rule settle_all_resolved)
    show "length (replicate (length ps) None) = length (map snd ps)"
      by simp
    show "\<forall>i\<in>set (sort_key (\<lambda>i. fst (ps ! i)) [0..<length ps]). i < length (map snd ps)"
      by simp
    show "\<forall>i<length (map snd ps). map snd ps ! i = Resolved (f i)"
      using assms by simp
    show "\<forall>i<length (map snd ps). i \<notin> set (sort_key (\<lambda>i. fst (ps ! i)) [0..<length ps]) \<longrightarrow>
        replicate (length ps) None ! i = Some (f i)"
      by simp
  qed
  then show ?thesis
    by (simp add: Promise_all_def)
qed

lemma fetchRandomPokemon_settled:
  "settles l \<Longrightarrow> fetchRandomPokemon T l = Resolved (settled_value T l)"
proof (cases "fetch l (random_id l)")
  case Pending
  moreover assume "settles l"
  ultimately show ?thesis
    by (simp add: settles_def)
next
  case (Rejected e)
  then show ?thesis
    by (simp add: fetchRandomPokemon_def fetch_and_process_def settled_value_def)
next
  case (Resolved r)
  assume "settles l"
  with Resolved have r: "\<not> ok r \<or> json r \<noteq> Pending"
    by (simp add: settles_def split: promise.splits)
  show ?thesis
  proof (cases "ok r")
    case False
    with Resolved show ?thesis
      by (simp add: fetchRandomPokemon_def fetch_and_process_def settled_value_def)
  next
    case True
    with r have "json r \<noteq> Pending" by simp
    with Resolved True show ?thesis
      by (cases "json r")
        (simp_all add: fetchRandomPokemon_def fetch_and_process_def settled_value_def
          split: sum.splits)
  qed
qed

lemma fetchRandomPokemon_not_Rejected: "fetchRandomPokemon T l \<noteq> Rejected e"
  by (simp add: fetchRandomPokemon_def split: promise.splits)

lemma fetchMultipleRandomPokemon_settled:
  assumes "\<forall>i<n. settles (env i)"
  shows "fetchMultipleRandomPokemon T env n = Resolved (map (\<lambda>i. settled_value T (env i)) [0..<n])"
proof -
  let ?ps = "map (\<lambda>j. (latency (env j), fetchRandomPokemon T (env j))) [0..<n]"
  have "Promise_all ?ps = Resolved (map (\<lambda>i. settled_value T (env i)) [0..<length ?ps])"
    by (rule Promise_all_resolved [of ?ps "\<lambda>i. settled_value T (env i)"])
      (use assms in \<open>simp add: fetchRandomPokemon_settled\<close>)
  then show ?thesis
    by (simp add: fetchMultipleRandomPokemon_def push_promises_map)
qed

lemma fetchMultipleRandomPokemon_not_Rejected: "fetchMultipleRandomPokemon T env n \<noteq> Rejected e"
  by (simp add: fetchMultipleRandomPokemon_def split: promise.splits)


lemma sample_env_settles: "\<forall>i<5. settles (sample_env i)"
proof -
  have "settles lookup_good" "settles lookup_offline" "settles lookup_404"
    "settles lookup_malformed"
    by (simp_all add: settles_def lookup_good_def lookup_offline_def lookup_404_def
        lookup_malformed_def ok_def)
  then have "\<forall>i\<in>set [0..<5]. settles (sample_env i)"
    by (simp add: sample_env_def upt_conv_Cons)
  then show ?thesis
    by simp
qed


text \<open>
  C2: for every count, \<open>fetchMultipleRandomPokemon\<close> never rejects, and once every lookup
  has settled it resolves with a list of exactly \<open>count\<close> entries.
\<close>

theorem fetchMultipleRandomPokemon_length:
  "(\<forall>e. fetchMultipleRandomPokemon ToNumber env n \<noteq> Rejected e)
   \<and> ((\<forall>i<n. settles (env i)) \<longrightarrow>
        (\<exists>pokemonList. fetchMultipleRandomPokemon ToNumber env n = Resolved pokemonList
           \<and> length pokemonList = n))"
  by (simp add: fetchMultipleRandomPokemon_not_Rejected fetchMultipleRandomPokemon_settled)

theorem fetchMultipleRandomPokemon_length_witness:
  "settles (sample_env 0) \<and> settles (sample_env 1) \<and> settles (sample_env 2)
   \<and> settles (sample_env 3) \<and> settles (sample_env 4)
   \<and> (\<exists>pokemonList. fetchMultipleRandomPokemon ToNumber_primitive sample_env 5 = Resolved pokemonList
         \<and> length pokemonList = 5)"
  using fetchMultipleRandomPokemon_length [of ToNumber_primitive sample_env 5] sample_env_settles
  by simp


lemma settled_value_cases:
  assumes "settles l"
  shows "(failure_of T l \<noteq> None \<longrightarrow> settled_value T l = None)
     \<and> (failure_of T l = None \<longrightarrow>
          (\<exists>r data p. fetch l (random_id l) = Resolved r \<and> ok r \<and> json r = Resolved data
             \<and> processPokemonData T data = Inr p \<and> settled_value T l = Some p))"
proof (cases "fetch l (random_id l)")
  case Pending
  with assms show ?thesis
    by (simp add: settles_def)
next
  case (Rejected e)
  then show ?thesis
    by (simp add: failure_of_def settled_value_def fetch_and_process_def)
next
  case (Resolved r)
  show ?thesis
  proof (cases "ok r")
    case False
    with Resolved show ?thesis
      by (simp add: failure_of_def settled_value_def fetch_and_process_def)
  next
    case True
    show ?thesis
    proof (cases "json r")
      case Pending
      with assms Resolved True show ?thesis
        by (simp add: settles_def)
    next
      case (Rejected e)
      with Resolved True show ?thesis
        by (simp add: failure_of_def settled_value_def fetch_and_process_def)
    next
      case body: (Resolved data)
      with Resolved True show ?thesis
        by (cases "processPokemonData T data")
          (simp_all add: failure_of_def settled_value_def fetch_and_process_def)
    qed
  qed
qed

text \<open>
  C3: in a batch whose lookups settle, a lookup that fails (transport failure, a status
  that is not 2xx, a body that cannot be normalized) leaves \<open>null\<close> at exactly its own
  position; the batch resolves, and every other position holds the normalized record of
  its own response.
\<close>

theorem failures_become_null:
  assumes "\<forall>i<n. settles (env i)"
  shows "\<exists>pokemonList. fetchMultipleRandomPokemon ToNumber env n = Resolved pokemonList
     \<and> length pokemonList = n
     \<and> (\<forall>i<n. (failure_of ToNumber (env i) \<noteq> None \<longrightarrow> pokemonList ! i = None)
          \<and> (failure_of ToNumber (env i) = None \<longrightarrow>
               (\<exists>r data p. fetch (env i) (random_id (env i)) = Resolved r \<and> ok r
                  \<and> json r = Resolved data \<and> processPokemonData ToNumber data = Inr p
                  \<and> pokemonList ! i = Some p)))"
proof -
  have "(failure_of ToNumber (env i) \<noteq> None \<longrightarrow> settled_value ToNumber (env i) = None)
      \<and> (failure_of ToNumber (env i) = None \<longrightarrow>
               (\<exists>r data p. fetch (env i) (random_id (env i)) = Resolved r \<and> ok r
                  \<and> json r = Resolved data \<and> processPokemonData ToNumber data = Inr p
                  \<and> settled_value ToNumber (env i) = Some p))" if "i < n" for i
  proof -
    from that assms have "settles (env i)" by simp
    then show ?thesis
      by (rule settled_value_cases)
  qed
  then have "\<forall>i<n. (failure_of ToNumber (env i) \<noteq> None \<longrightarrow>
        map (\<lambda>i. settled_value ToNumber (env i)) [0..<n] ! i = None)
      \<and> (failure_of ToNumber (env i) = None \<longrightarrow>
               (\<exists>r data p. fetch (env i) (random_id (env i)) = Resolved r \<and> ok r
                  \<and> json r = Resolved data \<and> processPokemonData ToNumber data = Inr p
                  \<and> map (\<lambda>i. settled_value ToNumber (env i)) [0..<n] ! i = Some p))"
    by simp
  moreover have "fetchMultipleRandomPokemon ToNumber env n =
      Resolved (map (\<lambda>i. settled_value ToNumber (env i)) [0..<n])"
    using assms by (rule fetchMultipleRandomPokemon_settled)
  ultimately show ?thesis
    by simp
qed


lemma sample_failures:
  "failure_of ToNumber_primitive (sample_env 0) = None"
  "failure_of ToNumber_primitive (sample_env 1) = Some TransportError"
  "failure_of ToNumber_primitive (sample_env 2) = Some (RemoteError 404)"
  "failure_of ToNumber_primitive (sample_env 3) = Some MalformedResponseError"
proof -
  have good: "processPokemonData ToNumber_primitive (raw_pokemon sprites_both) = Inr bulbasaur"
    by code_simp
  have bad: "processPokemonData ToNumber_primitive (Obj []) = Inl TypeError"
    by code_simp
  show "failure_of ToNumber_primitive (sample_env 0) = None"
    by (simp add: failure_of_def sample_env_def lookup_good_def ok_def good)
  show "failure_of ToNumber_primitive (sample_env 1) = Some TransportError"
    by (simp add: failure_of_def sample_env_def lookup_offline_def)
  show "failure_of ToNumber_primitive (sample_env 2) = Some (RemoteError 404)"
    by (simp add: failure_of_def sample_env_def lookup_404_def ok_def)
  show "failure_of ToNumber_primitive (sample_env 3) = Some MalformedResponseError"
    by (simp add: failure_of_def sample_env_def lookup_malformed_def ok_def bad)
qed

theorem failures_become_null_witness:
  "settles (sample_env 0) \<and> settles (sample_env 1) \<and> settles (sample_env 2)
   \<and> settles (sample_env 3) \<and> settles (sample_env 4)
   \<and> (\<exists>pokemonList. fetchMultipleRandomPokemon ToNumber_primitive sample_env 5 = Resolved pokemonList
         \<and> length pokemonList = 5
         \<and> pokemonList ! 1 = None \<and> pokemonList ! 2 = None \<and> pokemonList ! 3 = None
         \<and> (\<exists>p. pokemonList ! 0 = Some p))"
proof -
  from failures_become_null [OF sample_env_settles, of ToNumber_primitive]
  obtain pokemonList where
    1: "fetchMultipleRandomPokemon ToNumber_primitive sample_env 5 = Resolved pokemonList"
    and 2: "length pokemonList = 5"
    and 3: "\<forall>i<5. (failure_of ToNumber_primitive (sample_env i) \<noteq> None \<longrightarrow> pokemonList ! i = None)
          \<and> (failure_of ToNumber_primitive (sample_env i) = None \<longrightarrow>
               (\<exists>r data p. fetch (sample_env i) (random_id (sample_env i)) = Resolved r \<and> ok r
                  \<and> json r = Resolved data \<and> processPokemonData ToNumber_primitive data = Inr p
                  \<and> pokemonList ! i = Some p))"
    by blast
  from 3 have "pokemonList ! 1 = None" "pokemonList ! 2 = None" "pokemonList ! 3 = None"
    "\<exists>p. pokemonList ! 0 = Some p"
    using sample_failures by force+
  with 1 2 sample_env_settles show ?thesis
    by simp
qed


lemma fetchRandomPokemon_latency:
  "fetchRandomPokemon T (l\<lparr>latency := t\<rparr>) = fetchRandomPokemon T l"
  by (simp add: fetchRandomPokemon_def fetch_and_process_def random_id_def)

lemma settles_latency: "settles (l\<lparr>latency := t\<rparr>) = settles l"
  by (simp add: settles_def random_id_def)

text \<open>
  C4: whatever the times at which the lookups complete, position \<open>i\<close> of the resolved
  list holds the result of request \<open>i\<close>.
\<close>

theorem position_is_request:
  assumes "\<forall>i<n. settles (env i)"
  shows "\<exists>pokemonList.
     fetchMultipleRandomPokemon ToNumber (\<lambda>i. (env i)\<lparr>latency := completes i\<rparr>) n
       = Resolved pokemonList
     \<and> length pokemonList = n
     \<and> (\<forall>i<n. fetchRandomPokemon ToNumber (env i) = Resolved (pokemonList ! i))"
proof -
  have "\<forall>i<n. settles ((env i)\<lparr>latency := completes i\<rparr>)"
    using assms by (simp add: settles_latency)
  then have "fetchMultipleRandomPokemon ToNumber (\<lambda>i. (env i)\<lparr>latency := completes i\<rparr>) n =
      Resolved (map (\<lambda>i. settled_value ToNumber ((env i)\<lparr>latency := completes i\<rparr>)) [0..<n])"
    by (rule fetchMultipleRandomPokemon_settled)
  moreover have "fetchRandomPokemon ToNumber (env i) =
      Resolved (settled_value ToNumber ((env i)\<lparr>latency := completes i\<rparr>))" if "i < n" for i
  proof -
    from that assms have "settles ((env i)\<lparr>latency := completes i\<rparr>)"
      by (simp add: settles_latency)
    then have "fetchRandomPokemon ToNumber ((env i)\<lparr>latency := completes i\<rparr>) =
        Resolved (settled_value ToNumber ((env i)\<lparr>latency := completes i\<rparr>))"
      by (rule fetchRandomPokemon_settled)
    then show ?thesis
      by (simp only: fetchRandomPokemon_latency)
  qed
  ultimately show ?thesis
    by simp
qed

theorem position_is_request_witness:
  "settles (sample_env 0) \<and> settles (sample_env 1) \<and> settles (sample_env 2)
   \<and> settles (sample_env 3) \<and> settles (sample_env 4)
   \<and> (\<exists>pokemonList.
        fetchMultipleRandomPokemon ToNumber_primitive (\<lambda>i. (sample_env i)\<lparr>latency := 5 - i\<rparr>) 5
          = Resolved pokemonList
        \<and> length pokemonList = 5
        \<and> (\<forall>i<5. fetchRandomPokemon ToNumber_primitive (sample_env i) = Resolved (pokemonList ! i)))"
  using position_is_request [OF sample_env_settles, of ToNumber_primitive "\<lambda>i. 5 - i"]
    sample_env_settles
  by simp

section \<open>Elements and paths\<close>

lemma children_set_children [simp]: "children (set_children ch e) = ch"
  by (cases e) (simp add: set_children_def)

lemma classList_set_children [simp]: "classList (set_children ch e) = classList e"
  by (cases e) (simp add: set_children_def)

lemma dataset_set_children [simp]: "dataset (set_children ch e) = dataset e"
  by (cases e) (simp add: set_children_def)

lemma set_children_set_children [simp]: "set_children ch (set_children ch' e) = set_children ch e"
  by (cases e) (simp add: set_children_def)

lemma children_map_classList [simp]: "children (map_classList f e) = children e"
  by (cases e) (simp add: map_classList_def)

lemma classList_map_classList [simp]: "classList (map_classList f e) = f (classList e)"
  by (cases e) (simp add: map_classList_def)

lemma dataset_map_classList [simp]: "dataset (map_classList f e) = dataset e"
  by (cases e) (simp add: map_classList_def)

lemma set_children_map_classList:
  "set_children ch (map_classList f e) = map_classList f (set_children ch e)"
  by (cases e) (simp add: set_children_def map_classList_def)

lemma element_at_append:
  "element_at d (p @ q) = (case element_at d p of None \<Rightarrow> None | Some e \<Rightarrow> element_at e q)"
  by (induction p arbitrary: d) simp_all

lemma element_at_update_at_same:
  "element_at (update_at p f d) p = map_option f (element_at d p)"
  by (induction p arbitrary: d) simp_all

lemma update_at_update_at:
  "update_at p g (update_at p f d) = update_at p (\<lambda>e. g (f e)) d"
  by (induction p arbitrary: d) simp_all

lemma classList_update_at_apart:
  "\<not> prefix p q \<Longrightarrow>
   map_option classList (element_at (update_at p f d) q) = map_option classList (element_at d q)"
proof (induction p arbitrary: d q)
  case Nil
  then show ?case by simp
next
  case (Cons i p)
  show ?case
  proof (cases q)
    case Nil
    then show ?thesis by simp
  next
    case (Cons j q')
    with Cons.prems Cons.IH [of q' "children d ! i"] show ?thesis
      by (auto simp: nth_list_update)
  qed
qed

lemma element_at_update_classes:
  "\<not> prefix q p \<Longrightarrow> element_at (update_at p (map_classList f) d) q = element_at d q"
proof (induction p arbitrary: d q)
  case Nil
  then show ?case by (cases q) simp_all
next
  case (Cons i p)
  show ?case
  proof (cases q)
    case Nil
    with Cons.prems show ?thesis by simp
  next
    case (Cons j q')
    with Cons.prems Cons.IH [of q' "children d ! i"] show ?thesis
      by (auto simp: nth_list_update)
  qed
qed

lemma classList_update_classes:
  "map_option classList (element_at (update_at p (map_classList f) d) q) =
     (if q = p then map_option (\<lambda>e. f (classList e)) (element_at d p)
      else map_option classList (element_at d q))"
proof (cases "q = p")
  case True
  then show ?thesis
    by (simp add: element_at_update_at_same option.map_comp comp_def)
next
  case False
  show ?thesis
  proof (cases "prefix p q")
    case True
    with False have "\<not> prefix q p"
      by (auto dest: prefix_order.antisym)
    with False show ?thesis
      by (simp add: element_at_update_classes)
  next
    case no: False
    with False show ?thesis
      by (simp add: classList_update_at_apart)
  qed
qed

lemma without_classes_update_classes:
  "without_classes (update_at p (map_classList f) d) = without_classes d"
proof (induction p arbitrary: d)
  case Nil
  show ?case by (cases d) (simp add: map_classList_def)
next
  case (Cons i p)
  show ?case
  proof (cases d)
    case (Element t c ds a s x ch)
    show ?thesis
    proof (cases "i < length ch")
      case True
      have "map without_classes (ch[i := update_at p (map_classList f) (ch ! i)]) =
          (map without_classes ch)[i := without_classes (ch ! i)]"
        by (simp add: map_update Cons.IH)
      also have "\<dots> = map without_classes ch"
        using True by (simp add: list_update_same_conv)
      finally show ?thesis
        using True Element by (simp add: set_children_def)
    next
      case False
      with Element show ?thesis by simp
    qed
  qed
qed

lemma element_at_without_classes:
  "element_at (without_classes d) q = map_option without_classes (element_at d q)"
proof (induction q arbitrary: d)
  case Nil
  show ?case by simp
next
  case (Cons i q)
  show ?case
    by (cases d) (simp add: Cons.IH)
qed

lemma dataset_without_classes [simp]: "dataset (without_classes e) = dataset e"
  by (cases e) simp

lemma boundEntity_without_classes:
  "boundEntity (without_classes d) r = boundEntity d r"
  by (simp add: boundEntity_def element_at_without_classes split: option.splits)

section \<open>The click handler\<close>

lemma closest_card_same_cards:
  assumes "\<forall>q. map_option (\<lambda>e. token_contains (classList e) ''card'') (element_at d' q) =
               map_option (\<lambda>e. token_contains (classList e) ''card'') (element_at d q)"
  shows "closest_card d' x = closest_card d x"
  using assms
proof (induction d x rule: closest_card.induct)
  case (1 doc element)
  note same = "1.prems" [rule_format]
  show ?case
  proof (cases element)
    case None
    then show ?thesis
      by (simp add: closest_card.simps)
  next
    case (Some r)
    show ?thesis
    proof (cases "element_at doc r")
      case None
      with same [of r] have "element_at d' r = None"
        by simp
      with None Some show ?thesis
        by (simp add: closest_card.simps [of _ "Some r"])
    next
      case e: (Some e)
      with same [of r] obtain e' where e': "element_at d' r = Some e'"
        and c: "token_contains (classList e') ''card'' = token_contains (classList e) ''card''"
        by (cases "element_at d' r") auto
      show ?thesis
      proof (cases "token_contains (classList e) ''card''")
        case True
        with e e' c Some show ?thesis
          by (simp add: closest_card.simps [of _ "Some r"])
      next
        case False
        with "1.IH" [OF Some e] "1.prems"
        have "closest_card d' (parentElement r) = closest_card doc (parentElement r)"
          by simp
        with False e e' c Some show ?thesis
          by (simp add: closest_card.simps [of _ "Some r"])
      qed
    qed
  qed
qed

lemma toggle_keeps_other:
  "x \<noteq> t \<Longrightarrow> token_contains (token_toggle t c) x = token_contains c x"
  by (auto simp: token_toggle_def token_contains_def token_remove_def)

lemma toggle_twice:
  "token_contains (token_toggle t (token_toggle t c)) x = token_contains c x"
  by (auto simp: token_toggle_def token_contains_def token_remove_def)

lemma closest_card_after_toggle:
  "closest_card (update_at p (map_classList (token_toggle ''flipped'')) d) x = closest_card d x"
proof (rule closest_card_same_cards, rule allI)
  fix q
  have "map_option (\<lambda>c. token_contains c ''card'')
          (map_option classList (element_at (update_at p (map_classList (token_toggle ''flipped'')) d) q)) =
        map_option (\<lambda>c. token_contains c ''card'') (map_option classList (element_at d q))"
    unfolding classList_update_classes
    by (simp add: option.map_comp comp_def toggle_keeps_other)
  then show "map_option (\<lambda>e. token_contains (classList e) ''card'')
          (element_at (update_at p (map_classList (token_toggle ''flipped'')) d) q) =
        map_option (\<lambda>e. token_contains (classList e) ''card'') (element_at d q)"
    by (simp add: option.map_comp comp_def)
qed

lemma revealed_classList:
  "revealed d r = (case map_option classList (element_at d r) of
                     None \<Rightarrow> False | Some c \<Rightarrow> token_contains c ''flipped'')"
  by (simp add: revealed_def split: option.splits)

text \<open>
  C7: from every state and for every click target, two clicks on the same target leave
  the revealed flag of every element, so of every slot, as it was; and a click whose
  target has no card on its ancestor chain changes nothing (the handler has no throwing
  statement: the loop stops at \<open>null\<close> and the function returns).
\<close>

theorem toggle_twice_restores:
  "revealed (document (handleCardClick target (handleCardClick target s))) r = revealed (document s) r
   \<and> (closest_card (document s) (Some target) = None \<longrightarrow> handleCardClick target s = s)"
proof (cases "closest_card (document s) (Some target)")
  case None
  then show ?thesis
    by (simp add: handleCardClick_def)
next
  case (Some p)
  let ?t = "map_classList (token_toggle ''flipped'')"
  let ?d1 = "update_at p ?t (document s)"
  from Some have 1: "handleCardClick target s = s\<lparr>document := ?d1\<rparr>"
    by (simp add: handleCardClick_def)
  have "closest_card ?d1 (Some target) = Some p"
    using Some by (simp add: closest_card_after_toggle)
  with 1 have 2: "handleCardClick target (handleCardClick target s) =
      s\<lparr>document := update_at p ?t ?d1\<rparr>"
    by (simp add: handleCardClick_def)
  have "map_option classList (element_at (update_at p ?t ?d1) r) =
      (if r = p
       then map_option (\<lambda>e. token_toggle ''flipped'' (token_toggle ''flipped'' (classList e)))
              (element_at (document s) p)
       else map_option classList (element_at (document s) r))"
    by (simp add: classList_update_classes element_at_update_at_same option.map_comp comp_def)
  then have "revealed (update_at p ?t ?d1) r = revealed (document s) r"
    unfolding revealed_classList
    by (simp add: toggle_twice option.map_comp comp_def split: option.splits if_splits)
  with 2 Some show ?thesis
    by simp
qed

theorem toggle_twice_restores_witness:
  "revealed (document (handleCardClick [1, 1, 0, 0, 0]
       (handleCardClick [1, 1, 0, 0, 0] two_cards_app))) [1, 1]
     = revealed (document two_cards_app) [1, 1]
   \<and> \<not> revealed (document two_cards_app) [1, 1]
   \<and> revealed (document (handleCardClick [1, 1, 0, 0, 0] two_cards_app)) [1, 1]
   \<and> closest_card (document two_cards_app) (Some [1]) = None
   \<and> handleCardClick [1] two_cards_app = two_cards_app"
proof -
  have "\<not> revealed (document two_cards_app) [1, 1]"
    by code_simp
  moreover have "revealed (document (handleCardClick [1, 1, 0, 0, 0] two_cards_app)) [1, 1]"
    by code_simp
  moreover have "closest_card (document two_cards_app) (Some [1]) = None"
    by code_simp
  ultimately show ?thesis
    using toggle_twice_restores [of "[1, 1, 0, 0, 0]" two_cards_app "[1, 1]"]
      toggle_twice_restores [of "[1]" two_cards_app "[1, 1]"]
    by simp
qed


section \<open>Binding and revealing\<close>

lemma classList_update_at_keep:
  assumes "\<forall>e. classList (f e) = classList e" and "\<not> strict_prefix p q"
  shows "map_option classList (element_at (update_at p f d) q) =
         map_option classList (element_at d q)"
proof (cases "q = p")
  case True
  with assms(1) show ?thesis
    by (simp add: element_at_update_at_same option.map_comp comp_def)
next
  case False
  with assms(2) have "\<not> prefix p q"
    by (simp add: strict_prefix_def)
  then show ?thesis
    by (rule classList_update_at_apart)
qed

lemma classList_set_data [simp]: "classList (set_data k v e) = classList e"
  by (cases e) (simp add: set_data_def)

lemma classList_clear_innerHTML [simp]: "classList (clear_innerHTML e) = classList e"
  by (cases e) (simp add: clear_innerHTML_def)

lemma classList_appendChild [simp]: "classList (appendChild c e) = classList e"
  by (simp add: appendChild_def)

lemma classList_fold_appendChild [simp]: "classList (fold appendChild cs e) = classList e"
  by (induction cs arbitrary: e) simp_all

lemma classList_fill_card_back [simp]: "classList (fill_card_back p e) = classList e"
  by (simp add: fill_card_back_def)

lemma classList_assignPokemonToCard:
  assumes "\<not> strict_prefix card_ref r"
  shows "map_option classList (element_at (snd (assignPokemonToCard card_ref pokemon doc)) r) =
         map_option classList (element_at doc r)"
proof (cases "element_at doc card_ref")
  case None
  then show ?thesis
    by (simp add: assignPokemonToCard_def)
next
  case (Some c)
  show ?thesis
  proof (cases pokemon)
    case None
    with Some show ?thesis
      by (simp add: assignPokemonToCard_def)
  next
    case p: (Some p)
    let ?doc1 = "update_at card_ref (set_data ''pokemon'' [Json p]) doc"
    have 1: "map_option classList (element_at ?doc1 r) = map_option classList (element_at doc r)"
      using assms by (intro classList_update_at_keep) simp_all
    show ?thesis
    proof (cases "querySelector_class ''card-back'' (set_data ''pokemon'' [Json p] c)")
      case None
      with Some p 1 show ?thesis
        by (simp add: assignPokemonToCard_def)
    next
      case cb: (Some cardBack)
      from assms have "\<not> strict_prefix (card_ref @ cardBack) r"
        by (auto simp: strict_prefix_def prefix_def)
      then have "map_option classList
            (element_at (update_at (card_ref @ cardBack) (fill_card_back p) ?doc1) r) =
          map_option classList (element_at ?doc1 r)"
        by (intro classList_update_at_keep) simp_all
      with Some p cb 1 show ?thesis
        by (simp add: assignPokemonToCard_def)
    qed
  qed
qed

text \<open>
  C9: \<open>assignPokemonToCard\<close> leaves the revealed flag of the card it binds, and of every
  element outside that card, as it was; \<open>handleCardClick\<close> changes nothing of the
  document but class lists, so the bound entity of every element is as it was.
\<close>

theorem revealed_and_bound_independent:
  "revealed (snd (assignPokemonToCard card_ref pokemon doc)) card_ref = revealed doc card_ref
   \<and> (\<not> strict_prefix card_ref r \<longrightarrow>
        revealed (snd (assignPokemonToCard card_ref pokemon doc)) r = revealed doc r)
   \<and> without_classes (document (handleCardClick target s)) = without_classes (document s)
   \<and> boundEntity (document (handleCardClick target s)) r = boundEntity (document s) r"
proof -
  have bind: "revealed (snd (assignPokemonToCard card_ref pokemon doc)) q = revealed doc q"
    if "\<not> strict_prefix card_ref q" for q
    unfolding revealed_classList classList_assignPokemonToCard [OF that] ..
  have click: "without_classes (document (handleCardClick target s)) = without_classes (document s)"
    by (simp add: handleCardClick_def without_classes_update_classes split: option.splits)
  have "boundEntity (document (handleCardClick target s)) r =
      boundEntity (without_classes (document (handleCardClick target s))) r"
    by (simp only: boundEntity_without_classes)
  also have "\<dots> = boundEntity (document s) r"
    by (simp only: click boundEntity_without_classes)
  finally show ?thesis
    using bind click by simp
qed

theorem revealed_and_bound_independent_witness:
  "\<not> strict_prefix [1, 0] [1, 1]
   \<and> revealed (snd (assignPokemonToCard [1, 0] (Some bulbasaur) (document two_cards_app))) [1, 1]
       = revealed (document two_cards_app) [1, 1]
   \<and> revealed (snd (assignPokemonToCard [1, 0] (Some bulbasaur) (document two_cards_app))) [1, 0]
       = revealed (document two_cards_app) [1, 0]
   \<and> boundEntity (snd (assignPokemonToCard [1, 0] (Some bulbasaur) (document two_cards_app))) [1, 0]
       = Some [Json bulbasaur]
   \<and> boundEntity (document (handleCardClick [1, 0, 0, 0, 0] two_cards_app)) [1, 1]
       = boundEntity (document two_cards_app) [1, 1]"
proof -
  have "\<not> strict_prefix [1, 0] [1, 1 :: nat]"
    by simp
  moreover have
    "boundEntity (snd (assignPokemonToCard [1, 0] (Some bulbasaur) (document two_cards_app))) [1, 0]
       = Some [Json bulbasaur]"
    by code_simp
  ultimately show ?thesis
    using revealed_and_bound_independent
      [of "[1, 0]" "Some bulbasaur" "document two_cards_app" "[1, 1]" "[1, 0, 0, 0, 0]" two_cards_app]
    by simp
qed

section \<open>Initialization with an empty batch\<close>

lemma update_at_ident: "\<forall>e. f e = e \<Longrightarrow> update_at p f d = d"
proof (induction p arbitrary: d)
  case Nil
  then show ?case by simp
next
  case (Cons i p)
  then show ?case
    by (cases d) (simp add: set_children_def)
qed

lemma set_children_children [simp]: "set_children (children e) e = e"
  by (cases e) (simp add: set_children_def)

lemma children_appendChild [simp]: "children (appendChild c e) = children e @ [c]"
  by (simp add: appendChild_def)

lemma children_clear_innerHTML [simp]: "children (clear_innerHTML e) = []"
  by (cases e) (simp add: clear_innerHTML_def)

lemma create_cards_result:
  assumes "element_at (document s) (cardGrid s) = Some grid" and "i \<le> CARD_COUNT"
  shows "create_cards i s =
     s\<lparr>document := update_at (cardGrid s)
            (\<lambda>e. set_children (children e @ map createCardElement [i..<CARD_COUNT]) e) (document s),
       cards := cards s @ map (\<lambda>j. cardGrid s @ [length (children grid) + (j - i)]) [i..<CARD_COUNT]\<rparr>"
  using assms
proof (induction i s arbitrary: grid rule: create_cards.induct)
  case (1 i s)
  show ?case
  proof (cases "i < CARD_COUNT")
    case False
    with "1.prems" have "i = CARD_COUNT" by simp
    then show ?thesis
      by (subst create_cards.simps) (simp add: update_at_ident)
  next
    case True
    let ?c = "createCardElement i"
    let ?s' = "s\<lparr>document := update_at (cardGrid s) (appendChild ?c) (document s),
                  cards := cards s @ [cardGrid s @ [length (children grid)]]\<rparr>"
    have step: "create_cards i s = create_cards (i + 1) ?s'"
      using True "1.prems"(1) by (subst create_cards.simps) simp
    have grid': "element_at (document ?s') (cardGrid ?s') = Some (appendChild ?c grid)"
      using "1.prems"(1) by (simp add: element_at_update_at_same)
    have "create_cards (i + 1) ?s' =
        ?s'\<lparr>document := update_at (cardGrid ?s')
              (\<lambda>e. set_children (children e @ map createCardElement [i + 1..<CARD_COUNT]) e)
              (document ?s'),
            cards := cards ?s' @ map (\<lambda>j. cardGrid ?s' @
              [length (children (appendChild ?c grid)) + (j - (i + 1))]) [i + 1..<CARD_COUNT]\<rparr>"
    proof (rule "1.IH" [OF True refl, of "length (children grid)" "appendChild ?c grid"])
      show "length (children grid) =
          (case element_at (document s) (cardGrid s) of
             None \<Rightarrow> 0 | Some grid \<Rightarrow> length (children grid))"
        using "1.prems"(1) by simp
      show "element_at (document ?s') (cardGrid ?s') = Some (appendChild ?c grid)"
        by (rule grid')
      show "i + 1 \<le> CARD_COUNT"
        using True by simp
    qed
    moreover have "map (\<lambda>j. cardGrid s @ [length (children grid) + 1 + (j - (i + 1))])
          [i + 1..<CARD_COUNT] =
        map (\<lambda>j. cardGrid s @ [length (children grid) + (j - i)]) [i + 1..<CARD_COUNT]"
      by (rule map_cong) auto
    ultimately show ?thesis
      using True step
      by (simp add: update_at_update_at appendChild_def upt_conv_Cons)
  qed
qed

lemma assignPokemonToCard_null: "assignPokemonToCard r None doc = (None, doc)"
  by (simp add: assignPokemonToCard_def split: option.splits)

lemma assign_cards_all_null:
  assumes "\<forall>p\<in>set pokemonList. p = None"
  shows "assign_cards pokemonList i s = (None, s)"
  using assms
proof (induction pokemonList i s rule: assign_cards.induct)
  case (1 pokemonList i s)
  from "1.prems" have item: "item pokemonList i = None"
    by (simp add: item_def)
  show ?case
  proof (cases "i < length (cards s)")
    case False
    then show ?thesis
      by (subst assign_cards.simps) simp
  next
    case True
    have "assign_cards pokemonList (i + 1) (s\<lparr>document := document s\<rparr>) =
        (None, s\<lparr>document := document s\<rparr>)"
    proof (rule "1.IH" [of None "document s"])
      show "i < length (cards s)"
        by (rule True)
      show "(None, document s) =
          assignPokemonToCard (cards s ! i) (item pokemonList i) (document s)"
        by (simp add: item assignPokemonToCard_null)
      show "\<forall>p\<in>set pokemonList. p = None"
        by (rule "1.prems")
    qed simp
    with True show ?thesis
      by (subst assign_cards.simps) (simp add: item assignPokemonToCard_null)
  qed
qed

lemma element_at_update_classes_None:
  "(element_at (update_at p (map_classList f) d) q = None) = (element_at d q = None)"
proof -
  have "(map_option classList (element_at (update_at p (map_classList f) d) q) = None) =
      (map_option classList (element_at d q) = None)"
    unfolding classList_update_classes by simp
  then show ?thesis
    by simp
qed

lemma element_at_update_at_apart_None:
  assumes "\<not> prefix p q"
  shows "(element_at (update_at p f d) q = None) = (element_at d q = None)"
proof -
  have "(map_option classList (element_at (update_at p f d) q) = None) =
      (map_option classList (element_at d q) = None)"
    unfolding classList_update_at_apart [OF assms] ..
  then show ?thesis
    by simp
qed

lemma hidden_classList:
  "hidden d r = (case map_option classList (element_at d r) of
                   None \<Rightarrow> False | Some c \<Rightarrow> token_contains c ''hidden'')"
  by (simp add: hidden_def split: option.splits)

lemma contains_token_add [simp]: "token_contains (token_add t c) t"
  by (simp add: token_add_def token_contains_def)

lemma contains_token_remove [simp]: "\<not> token_contains (token_remove t c) t"
  by (simp add: token_remove_def token_contains_def)

lemma boundEntity_createCardElement: "map_of (dataset (createCardElement i)) ''pokemon'' = None"
  by (simp add: createCardElement_def Let_def appendChild_def set_data_def set_className_def
      createElement_def map_classList_def)

text \<open>
  C8: on a page that has the grid and the loading indicator (the indicator not inside
  the grid, whose content is replaced), \<open>initApp\<close> with a batch that is all \<open>null\<close>
  resolves; afterwards the indicator is hidden, the grid is shown, and each of the twelve
  cards is the placeholder \<open>createCardElement\<close> made, with no record bound to it.
\<close>

theorem initApp_all_null:
  assumes grid: "element_at (document s) (cardGrid s) \<noteq> None"
    and spinner: "element_at (document s) (loadingSpinner s) \<noteq> None"
    and apart: "\<not> prefix (cardGrid s) (loadingSpinner s)"
    and batch: "fetchMultipleRandomPokemon ToNumber env CARD_COUNT = Resolved pokemonList"
    and nulls: "\<forall>p\<in>set pokemonList. p = None"
  shows "\<exists>s'. initApp ToNumber env s = (Resolved (), s')
     \<and> hidden (document s') (loadingSpinner s')
     \<and> \<not> hidden (document s') (cardGrid s')
     \<and> cards s' = map (\<lambda>i. cardGrid s' @ [i]) [0..<CARD_COUNT]
     \<and> (\<forall>i<CARD_COUNT. element_at (document s') (cards s' ! i) = Some (createCardElement i)
            \<and> boundEntity (document s') (cards s' ! i) = None)"
proof -
  let ?g = "cardGrid s" and ?sp = "loadingSpinner s"
  define d1 where "d1 = update_at ?sp (map_classList (token_remove ''hidden'')) (document s)"
  define d2 where "d2 = update_at ?g (map_classList (token_add ''hidden'')) d1"
  define G where
    "G = (\<lambda>e. set_children (map createCardElement [0..<CARD_COUNT]) (clear_innerHTML e))"
  define d3 where "d3 = update_at ?g G d2"
  define d5 where "d5 = update_at ?sp (map_classList (token_add ''hidden'')) d3"
  define d6 where "d6 = update_at ?g (map_classList (token_remove ''hidden'')) d5"
  define cs where "cs = map (\<lambda>i. ?g @ [i]) [0..<CARD_COUNT]"
  define s6 where "s6 = s\<lparr>document := d6, cards := cs, clickListener := True\<rparr>"
  have g1: "element_at d1 ?g \<noteq> None" and sp1: "element_at d1 ?sp \<noteq> None"
    using grid spinner by (simp_all add: d1_def element_at_update_classes_None)
  then have g2: "element_at d2 ?g \<noteq> None" and sp2: "element_at d2 ?sp \<noteq> None"
    by (simp_all add: d2_def element_at_update_classes_None)
  from g2 obtain ge where ge: "element_at d2 ?g = Some ge"
    by auto
  have g3: "element_at d3 ?g = Some (G ge)"
    by (simp add: d3_def element_at_update_at_same ge)
  have sp3: "element_at d3 ?sp \<noteq> None"
    using sp2 apart by (simp add: d3_def element_at_update_at_apart_None)
  have g5: "element_at d5 ?g \<noteq> None"
    using g3 by (simp add: d5_def element_at_update_classes_None)
  have f1: "showLoading s = (None, s\<lparr>document := d1\<rparr>)"
    using spinner by (auto simp: showLoading_def on_element_def d1_def)
  have f2: "on_element ?g (map_classList (token_add ''hidden'')) (s\<lparr>document := d1\<rparr>) =
      (None, s\<lparr>document := d2\<rparr>)"
    using g1 by (auto simp: on_element_def d2_def)
  have f3: "createCardElements (s\<lparr>document := d2\<rparr>) = (None, s\<lparr>document := d3, cards := cs\<rparr>)"
  proof -
    let ?s = "s\<lparr>document := update_at ?g clear_innerHTML d2, cards := []\<rparr>"
    have "element_at (document ?s) (cardGrid ?s) = Some (clear_innerHTML ge)"
      by (simp add: element_at_update_at_same ge)
    then have "create_cards 0 ?s =
        ?s\<lparr>document := update_at (cardGrid ?s)
              (\<lambda>e. set_children (children e @ map createCardElement [0..<CARD_COUNT]) e)
              (document ?s),
           cards := cards ?s @ map (\<lambda>j. cardGrid ?s @
              [length (children (clear_innerHTML ge)) + (j - 0)]) [0..<CARD_COUNT]\<rparr>"
      by (rule create_cards_result) simp
    then have "create_cards 0 ?s = s\<lparr>document := d3, cards := cs\<rparr>"
      by (simp add: update_at_update_at d3_def G_def cs_def)
    then show ?thesis
      using ge by (simp add: createCardElements_def on_element_def)
  qed
  have f4: "fetchAndAssignPokemon ToNumber env (s\<lparr>document := d3, cards := cs\<rparr>) =
      (Resolved (), s\<lparr>document := d3, cards := cs\<rparr>)"
    by (simp add: fetchAndAssignPokemon_def delay_def batch assign_cards_all_null [OF nulls])
  have f5: "setupEventListeners (s\<lparr>document := d3, cards := cs\<rparr>) =
      (None, s\<lparr>document := d3, cards := cs, clickListener := True\<rparr>)"
    using g3 by (simp add: setupEventListeners_def)
  have f6: "hideLoading (s\<lparr>document := d3, cards := cs, clickListener := True\<rparr>) =
      (None, s\<lparr>document := d5, cards := cs, clickListener := True\<rparr>)"
    using sp3 by (auto simp: hideLoading_def on_element_def d5_def)
  have f7: "on_element ?g (map_classList (token_remove ''hidden''))
        (s\<lparr>document := d5, cards := cs, clickListener := True\<rparr>) = (None, s6)"
    using g5 by (auto simp: on_element_def d6_def s6_def)
  have run: "initApp ToNumber env s = (Resolved (), s6)"
    by (simp add: initApp_def f1 f2 f3 f4 f5 f6 f7)
  from apart have neq: "?sp \<noteq> ?g"
    by auto
  from sp3 obtain e3 where e3: "element_at d3 ?sp = Some e3"
    by auto
  have c1: "map_option classList (element_at d6 ?sp) = Some (token_add ''hidden'' (classList e3))"
    using neq e3 by (simp add: d6_def d5_def classList_update_classes)
  have p1: "hidden d6 ?sp"
    unfolding hidden_classList c1 by simp
  from g5 obtain e5 where e5: "element_at d5 ?g = Some e5"
    by auto
  have c2: "map_option classList (element_at d6 ?g) = Some (token_remove ''hidden'' (classList e5))"
    using e5 by (simp add: d6_def classList_update_classes)
  have p2: "\<not> hidden d6 ?g"
    unfolding hidden_classList c2 by simp
  have p4: "element_at d6 (?g @ [i]) = Some (createCardElement i)" if "i < CARD_COUNT" for i
  proof -
    have "\<not> prefix (?g @ [i]) ?g"
      by (simp add: prefix_def)
    then have "element_at d6 (?g @ [i]) = element_at d5 (?g @ [i])"
      by (simp add: d6_def element_at_update_classes)
    moreover have "\<not> prefix (?g @ [i]) ?sp"
      using apart by (auto simp: prefix_def)
    then have "element_at d5 (?g @ [i]) = element_at d3 (?g @ [i])"
      by (simp add: d5_def element_at_update_classes)
    moreover have "element_at d3 (?g @ [i]) = Some (createCardElement i)"
      using that by (simp add: element_at_append g3 G_def)
    ultimately show ?thesis
      by simp
  qed
  have "\<forall>i<CARD_COUNT. element_at (document s6) (cards s6 ! i) = Some (createCardElement i)
            \<and> boundEntity (document s6) (cards s6 ! i) = None"
    by (simp add: s6_def cs_def p4 boundEntity_def boundEntity_createCardElement)
  moreover have "cards s6 = map (\<lambda>i. cardGrid s6 @ [i]) [0..<CARD_COUNT]"
    by (simp add: s6_def cs_def)
  moreover have "hidden (document s6) (loadingSpinner s6)" "\<not> hidden (document s6) (cardGrid s6)"
    using p1 p2 by (simp_all add: s6_def)
  ultimately show ?thesis
    using run by blast
qed

theorem initApp_all_null_witness:
  "element_at (document sample_app) (cardGrid sample_app) \<noteq> None
   \<and> element_at (document sample_app) (loadingSpinner sample_app) \<noteq> None
   \<and> \<not> prefix (cardGrid sample_app) (loadingSpinner sample_app)
   \<and> fetchMultipleRandomPokemon ToNumber_primitive offline_env CARD_COUNT =
       Resolved (replicate CARD_COUNT None)
   \<and> (\<exists>s'. initApp ToNumber_primitive offline_env sample_app = (Resolved (), s')
         \<and> hidden (document s') (loadingSpinner s')
         \<and> \<not> hidden (document s') (cardGrid s')
         \<and> cards s' = map (\<lambda>i. cardGrid s' @ [i]) [0..<CARD_COUNT]
         \<and> (\<forall>i<CARD_COUNT. element_at (document s') (cards s' ! i) = Some (createCardElement i)
                \<and> boundEntity (document s') (cards s' ! i) = None))"
proof -
  have 1: "element_at (document sample_app) (cardGrid sample_app) \<noteq> None"
    and 2: "element_at (document sample_app) (loadingSpinner sample_app) \<noteq> None"
    and 3: "\<not> prefix (cardGrid sample_app) (loadingSpinner sample_app)"
    by (simp_all add: sample_app_def sample_page_def)
  have "settles lookup_offline"
    by (simp add: settles_def lookup_offline_def)
  then have "\<forall>i<CARD_COUNT. settles (offline_env i)"
    by (simp add: offline_env_def)
  then have "fetchMultipleRandomPokemon ToNumber_primitive offline_env CARD_COUNT =
      Resolved (map (\<lambda>i. settled_value ToNumber_primitive (offline_env i)) [0..<CARD_COUNT])"
    by (rule fetchMultipleRandomPokemon_settled)
  moreover have "settled_value ToNumber_primitive (offline_env i) = None" for i
    by (simp add: settled_value_def fetch_and_process_def offline_env_def lookup_offline_def)
  ultimately have 4: "fetchMultipleRandomPokemon ToNumber_primitive offline_env CARD_COUNT =
      Resolved (replicate CARD_COUNT None)"
    by (simp add: map_replicate_const)
  have 5: "\<forall>p\<in>set (replicate CARD_COUNT (None :: pokemon option)). p = None"
    by simp
  show ?thesis
    using 1 2 3 4 initApp_all_null [OF 1 2 3 4 5]
    by simp
qed

end
